theory Spec2Isabelle
  imports Main "HOL-Library.Word"
begin

section \<open>The PSD analyzer page (src/app/page.tsx)\<close>

text \<open>
  The page reads a file, hands its bytes to the parser of the library @webtoon/psd, draws
  the composite on a canvas, flattens the layer tree into a list of display records and
  renders both. The embedding follows the source top to bottom: the two interfaces
  (lines 7-67), the handler \<open>analyzePsd\<close> with its local function
  \<open>collectLayerInfo\<close> (lines 73-141) and the JSX that is returned (lines 143-204).

  Conventions.
  \<^item> An optional property \<open>p?: T\<close> is a \<open>T option\<close>; \<open>None\<close> is \<open>undefined\<close>.
    A property that an object literal does not mention reads as \<open>undefined\<close> too,
    so it is \<open>None\<close> as well.
  \<^item> The numeric fields of a node are the integers the parser delivers: \<open>int\<close>.
    The sizes of a document and of a canvas are pixel counts: \<open>nat\<close>.
  \<^item> A string is a list of bytes. The page never measures a string, it only tests one
    for emptiness and concatenates, so the Japanese labels of the source are written
    as their UTF-8 bytes.
  \<^item> The arrays \<open>guides\<close> and \<open>slices\<close> are the only mutable objects that the
    display records can share with the tree. The types of the two fields are
    parameters \<open>'g\<close> and \<open>'s\<close>: the flattener only ever copies the field, so one
    definition serves both readings, the array as a value (a list) and the array as a
    reference (an address into a store).
\<close>

subsection \<open>Guides and slices (lines 24-36 and 54-66)\<close>

datatype orientation = horizontal | vertical

record guide =
  position :: int
  orientation :: orientation

record bounds =
  top :: int
  left :: int
  bottom :: int
  right :: int

record slice =
  name :: string
  bounds :: bounds

subsection \<open>The tree of the parser: interface PsdLayerNode (lines 40-67)\<close>

text \<open>
  The discriminant \<open>type\<close> is a string, as it is at run time: the interface promises
  \<open>'Layer' | 'Group'\<close>, and the function below has a third branch for everything else.
  The interface gives every node the optional property \<open>children\<close>, a leaf included.
  The properties \<open>open\<close> and \<open>text\<close> carry a prime, their names being keywords here.
\<close>

datatype ('g, 's) node = Node
  (type: string)
  (name: string)
  (width: "int option")
  (height: "int option")
  (opacity: "int option")
  (visible: "bool option")
  (open': "bool option")
  (children: "('g, 's) node list option")
  (top: "int option")
  (left: "int option")
  (blendMode: "string option")
  (clipped: "bool option")
  (text': "string option")
  (guides: "'g option")
  (slices: "'s option")

subsection \<open>The display record: an element of PsdFileInfo.layers (lines 11-37)\<close>

record ('g, 's) layer_info =
  name :: string
  width :: "int option"
  height :: "int option"
  opacity :: "int option"
  visible :: "bool option"
  type :: string
  open' :: "bool option"
  top :: "int option"
  left :: "int option"
  blendMode :: "string option"
  clipped :: "bool option"
  text' :: "string option"
  guides :: "'g option"
  slices :: "'s option"

subsection \<open>collectLayerInfo (lines 105-132)\<close>

text \<open>The object literal of lines 107-121, pushed for a node of type Layer.\<close>

definition layerRecord :: "('g, 's) node \<Rightarrow> ('g, 's) layer_info" where
  "layerRecord n =
     \<lparr>layer_info.name = node.name n,
      layer_info.width = node.width n,
      layer_info.height = node.height n,
      layer_info.opacity = node.opacity n,
      layer_info.visible = node.visible n,
      layer_info.type = node.type n,
      layer_info.open' = None,
      layer_info.top = node.top n,
      layer_info.left = node.left n,
      layer_info.blendMode = node.blendMode n,
      layer_info.clipped = node.clipped n,
      layer_info.text' = node.text' n,
      layer_info.guides = node.guides n,
      layer_info.slices = node.slices n\<rparr>"

text \<open>The object literal of lines 123-129, pushed for a node of type Group.\<close>

definition groupRecord :: "('g, 's) node \<Rightarrow> ('g, 's) layer_info" where
  "groupRecord n =
     \<lparr>layer_info.name = node.name n,
      layer_info.width = None,
      layer_info.height = None,
      layer_info.opacity = None,
      layer_info.visible = None,
      layer_info.type = node.type n,
      layer_info.open' = node.open' n,
      layer_info.top = None,
      layer_info.left = None,
      layer_info.blendMode = None,
      layer_info.clipped = None,
      layer_info.text' = None,
      layer_info.guides = node.guides n,
      layer_info.slices = node.slices n\<rparr>"

lemma size_in_list: "c \<in> set cs \<Longrightarrow> size c \<le> size_list size cs"
  by (rule size_list_estimation'[OF _ order_refl])

lemma size_child:
  "node.children n = Some cs \<Longrightarrow> c \<in> set cs \<Longrightarrow> size c < size n"
  by (cases n) (auto simp: less_Suc_eq_le dest: size_in_list intro: trans_le_add1)

text \<open>
  The function pushes onto \<open>info.layers\<close>; the list is passed in as \<open>acc\<close> and returned.
  \<open>node.children?.forEach(f)\<close> does nothing when \<open>children\<close> is undefined and is a
  left-to-right fold otherwise. No branch throws.
\<close>

function collectLayerInfo ::
  "('g, 's) node \<Rightarrow> ('g, 's) layer_info list \<Rightarrow> ('g, 's) layer_info list" where
  "collectLayerInfo n acc =
     (if node.type n = ''Layer'' then acc @ [layerRecord n]
      else if node.type n = ''Group'' then
        (case node.children n of
           None \<Rightarrow> acc @ [groupRecord n]
         | Some cs \<Rightarrow> fold collectLayerInfo cs (acc @ [groupRecord n]))
      else acc)"
  by pat_completeness auto
termination
  by (relation "measure (\<lambda>(n, acc). size n)") (simp_all add: size_child)

declare collectLayerInfo.simps [simp del]

text \<open>Line 134: \<open>psdFile.children.forEach(collectLayerInfo)\<close> on the empty \<open>info.layers\<close>.\<close>

definition flatten :: "('g, 's) node list \<Rightarrow> ('g, 's) layer_info list" where
  "flatten roots = fold collectLayerInfo roots []"

subsection \<open>Vocabulary for the properties of the flattener\<close>

text \<open>The children of a node as a list: none when the property is undefined.\<close>

definition child_nodes :: "('g, 's) node \<Rightarrow> ('g, 's) node list" where
  "child_nodes n = (case node.children n of None \<Rightarrow> [] | Some cs \<Rightarrow> cs)"

lemma size_child_nodes: "c \<in> set (child_nodes n) \<Longrightarrow> size c < size n"
  by (cases "node.children n") (simp_all add: child_nodes_def size_child)

text \<open>
  The pre-order (parent before children, children left to right) listing of all the
  nodes of a tree, as the specification words it; it is not taken from the code.
\<close>

function preorder :: "('g, 's) node \<Rightarrow> ('g, 's) node list" where
  "preorder n = n # concat (map preorder (child_nodes n))"
  by pat_completeness auto
termination
  by (relation "measure size") (simp_all add: size_child_nodes)

declare preorder.simps [simp del]

definition preorder_forest :: "('g, 's) node list \<Rightarrow> ('g, 's) node list" where
  "preorder_forest roots = concat (map preorder roots)"

text \<open>
  The trees of the specification's data model: every node is a Layer or a Group, and a
  Layer is a leaf, as the parser delivers it. The interface of lines 40-67 would also
  admit a Layer that has children; the Layer branch of \<open>collectLayerInfo\<close> does not
  look at them, so the properties that count one record per node speak of these trees.
\<close>

function layer_tree :: "('g, 's) node \<Rightarrow> bool" where
  "layer_tree n =
     (if node.type n = ''Layer'' then child_nodes n = []
      else if node.type n = ''Group'' then list_all layer_tree (child_nodes n)
      else False)"
  by pat_completeness auto
termination
  by (relation "measure size") (simp_all add: size_child_nodes)

declare layer_tree.simps [simp del]

text \<open>The display record that belongs to a node of such a tree.\<close>

definition display_record :: "('g, 's) node \<Rightarrow> ('g, 's) layer_info" where
  "display_record n = (if node.type n = ''Layer'' then layerRecord n else groupRecord n)"

text \<open>Nodes for the examples: a leaf and a group as the parser delivers them.\<close>

definition example_leaf :: "string \<Rightarrow> (guide list, slice list) node" where
  "example_leaf nm =
     Node ''Layer'' nm (Some 10) (Some 20) (Some 255) (Some True) None None
       (Some (- 3)) (Some 4) (Some ''normal'') (Some False) None None None"

definition example_group ::
  "string \<Rightarrow> (guide list, slice list) node list \<Rightarrow> (guide list, slice list) node" where
  "example_group nm cs =
     Node ''Group'' nm None None None None (Some True) (Some cs)
       None None None None None None None"

subsection \<open>The parsed document and the platform (lines 78-94)\<close>

text \<open>
  What the handler calls and does not define: the parser of @webtoon/psd
  (\<open>Psd.parse\<close>, \<open>composite\<close>), and the browser (\<open>File.arrayBuffer\<close>, the
  canvas, \<open>ImageData\<close>, \<open>alert\<close>, \<open>console.error\<close>). A call that can throw
  returns a sum, \<open>Inl\<close> carrying what was thrown: an error of a collaborator, a
  DOMException of \<open>ImageData\<close>, or the RangeError of the engine when the call stack
  is exhausted.
\<close>

type_synonym byte = "8 word"

datatype exn = Thrown string | InvalidStateError | IndexSizeError | RangeError

text \<open>
  The object returned by \<open>Psd.parse\<close>. \<open>composite\<close> holds the outcome of the call
  \<open>psdFile.composite()\<close>; \<open>colorMode\<close> is the number of the library's enumeration.
\<close>

record ('g, 's) Psd =
  width :: nat
  height :: nat
  colorMode :: nat
  composite :: "exn + byte list"
  children :: "('g, 's) node list"

record ImageData =
  data :: "byte list"
  width :: nat
  height :: nat

text \<open>
  \<open>new ImageData(data, sw, sh)\<close> as the HTML standard defines it: InvalidStateError
  unless the length of the data is a nonzero multiple of four, IndexSizeError unless
  the number of pixels is a multiple of \<open>sw\<close> (so also when \<open>sw\<close> is zero) and
  the quotient is \<open>sh\<close>.
\<close>

definition new_ImageData :: "byte list \<Rightarrow> nat \<Rightarrow> nat \<Rightarrow> exn + ImageData" where
  "new_ImageData d sw sh =
     (if length d = 0 \<or> length d mod 4 \<noteq> 0 then Inl InvalidStateError
      else if sw = 0 \<or> (length d div 4) mod sw \<noteq> 0 then Inl IndexSizeError
      else if (length d div 4) div sw \<noteq> sh then Inl IndexSizeError
      else Inr \<lparr>ImageData.data = d, ImageData.width = sw, ImageData.height = sh\<rparr>)"

text \<open>
  A canvas: its size and the drawing calls made on it since it was last cleared, oldest
  first. A new canvas is 300 by 150; setting a dimension clears it. What the surface
  holds after a call is the browser's business (it keeps its pixels with premultiplied
  alpha, so a pixel that is not opaque need not read back with the bytes it was given);
  the model keeps what the page asks for.
\<close>

record put_call =
  imagedata :: ImageData
  dx :: nat
  dy :: nat

record canvas =
  width :: nat
  height :: nat
  drawn :: "put_call list"

definition createElement_canvas :: canvas where
  "createElement_canvas = \<lparr>canvas.width = 300, canvas.height = 150, canvas.drawn = []\<rparr>"

definition set_width :: "canvas \<Rightarrow> nat \<Rightarrow> canvas" where
  "set_width c w = c\<lparr>canvas.width := w, canvas.drawn := []\<rparr>"

definition set_height :: "canvas \<Rightarrow> nat \<Rightarrow> canvas" where
  "set_height c h = c\<lparr>canvas.height := h, canvas.drawn := []\<rparr>"

text \<open>\<open>ctx.putImageData(imageData, dx, dy)\<close>: one more drawing call on the canvas.\<close>

definition putImageData :: "canvas \<Rightarrow> ImageData \<Rightarrow> nat \<Rightarrow> nat \<Rightarrow> canvas" where
  "putImageData c img x y =
     c\<lparr>canvas.drawn := canvas.drawn c @ [\<lparr>imagedata = img, dx = x, dy = y\<rparr>]\<rparr>"

text \<open>
  The platform of one run: the parser, whether \<open>canvas.getContext('2d')\<close> yields a
  context (it is null otherwise, and \<open>ctx?.putImageData\<close> is then skipped), the PNG
  encoder behind \<open>canvas.toDataURL()\<close>, and how many nested activations of
  \<open>collectLayerInfo\<close> the call stack of the engine holds.
\<close>

record ('g, 's) platform =
  parse :: "byte list \<Rightarrow> exn + ('g, 's) Psd"
  context2d :: bool
  png_base64 :: "canvas \<Rightarrow> string"
  call_stack :: nat

subsection \<open>collectLayerInfo on a bounded call stack\<close>

text \<open>
  The function recurses once for every level of nesting, so on a tree that is nested
  deeper than the stack allows the engine throws a RangeError out of the walk. The
  bounded walk is the function above with a budget of activations; \<open>forEach\<close> stops at
  the first callback that throws.
\<close>

primrec forEach_throwing ::
  "('a \<Rightarrow> 'b \<Rightarrow> exn + 'b) \<Rightarrow> 'a list \<Rightarrow> 'b \<Rightarrow> exn + 'b" where
  "forEach_throwing f [] acc = Inr acc"
| "forEach_throwing f (c # cs) acc =
     (case f c acc of Inl error \<Rightarrow> Inl error | Inr acc' \<Rightarrow> forEach_throwing f cs acc')"

primrec collectLayerInfo_on_stack ::
  "nat \<Rightarrow> ('g, 's) node \<Rightarrow> ('g, 's) layer_info list \<Rightarrow> exn + ('g, 's) layer_info list" where
  "collectLayerInfo_on_stack 0 n acc = Inl RangeError"
| "collectLayerInfo_on_stack (Suc k) n acc =
     (if node.type n = ''Layer'' then Inr (acc @ [layerRecord n])
      else if node.type n = ''Group'' then
        (case node.children n of
           None \<Rightarrow> Inr (acc @ [groupRecord n])
         | Some cs \<Rightarrow>
             forEach_throwing (collectLayerInfo_on_stack k) cs (acc @ [groupRecord n]))
      else Inr acc)"

text \<open>
  The number of nested activations that the walk of a node needs: one for the node, and
  for a Group as many more as its deepest child needs.
\<close>

function call_depth :: "('g, 's) node \<Rightarrow> nat" where
  "call_depth n =
     (if node.type n = ''Group'' then Suc (foldr max (map call_depth (child_nodes n)) 0)
      else 1)"
  by pat_completeness auto
termination
  by (relation "measure size") (simp_all add: size_child_nodes)

declare call_depth.simps [simp del]

definition forest_depth :: "('g, 's) node list \<Rightarrow> nat" where
  "forest_depth roots = foldr max (map call_depth roots) 0"

definition toDataURL :: "('g, 's) platform \<Rightarrow> canvas \<Rightarrow> string" where
  "toDataURL pf c =
     (if canvas.width c = 0 \<or> canvas.height c = 0 then ''data:,''
      else ''data:image/png;base64,'' @ png_base64 pf c)"

text \<open>The selected file: the outcome of \<open>file.arrayBuffer()\<close>.\<close>

record File =
  arrayBuffer :: "exn + byte list"

subsection \<open>Numbers as text\<close>

definition digit :: "nat \<Rightarrow> char" where
  "digit d = ''0123456789'' ! d"

function digits :: "nat \<Rightarrow> string" where
  "digits n = (if n < 10 then [digit n] else digits (n div 10) @ [digit (n mod 10)])"
  by pat_completeness auto
termination
  by (relation "measure id") simp_all

declare digits.simps [simp del]

definition Number_toString :: "int \<Rightarrow> string" where
  "Number_toString i = (if i < 0 then CHR ''-'' # digits (nat (- i)) else digits (nat i))"

subsection \<open>The state of the component and of the browser (lines 7-38, 70-71)\<close>

record ('g, 's) PsdFileInfo =
  width :: nat
  height :: nat
  colorMode :: string
  layers :: "('g, 's) layer_info list"

text \<open>
  The two state slots of the component, and what the user and the console have been
  shown: the texts of the \<open>alert\<close> dialogs and the \<open>console.error\<close> entries, oldest
  first.
\<close>

record ('g, 's) page =
  psdInfo :: "('g, 's) PsdFileInfo option"
  imagePreview :: string
  alerts :: "string list"
  console_errors :: "(string \<times> exn) list"

definition initial_page :: "('g, 's) page" where
  "initial_page = \<lparr>psdInfo = None, imagePreview = [], alerts = [], console_errors = []\<rparr>"

definition console_message :: string where
  "console_message = ''PSD'' @ [CHR 0xE3, CHR 0x83, CHR 0x95, CHR 0xE3, CHR 0x82, CHR 0xA1, CHR 0xE3, CHR 0x82, CHR 0xA4, CHR 0xE3, CHR 0x83, CHR 0xAB, CHR 0xE3, CHR 0x81, CHR 0xAE, CHR 0xE8, CHR 0xA7, CHR 0xA3, CHR 0xE6, CHR 0x9E, CHR 0x90, CHR 0xE4, CHR 0xB8, CHR 0xAD, CHR 0xE3, CHR 0x81, CHR 0xAB, CHR 0xE3, CHR 0x82, CHR 0xA8, CHR 0xE3, CHR 0x83, CHR 0xA9, CHR 0xE3, CHR 0x83, CHR 0xBC, CHR 0xE3, CHR 0x81, CHR 0x8C, CHR 0xE7, CHR 0x99, CHR 0xBA, CHR 0xE7, CHR 0x94, CHR 0x9F, CHR 0xE3, CHR 0x81, CHR 0x97, CHR 0xE3, CHR 0x81, CHR 0xBE, CHR 0xE3, CHR 0x81, CHR 0x97, CHR 0xE3, CHR 0x81, CHR 0x9F] @ '':''"

definition alert_message :: string where
  "alert_message = ''PSD'' @ [CHR 0xE3, CHR 0x83, CHR 0x95, CHR 0xE3, CHR 0x82, CHR 0xA1, CHR 0xE3, CHR 0x82, CHR 0xA4, CHR 0xE3, CHR 0x83, CHR 0xAB, CHR 0xE3, CHR 0x81, CHR 0xAE, CHR 0xE8, CHR 0xA7, CHR 0xA3, CHR 0xE6, CHR 0x9E, CHR 0x90, CHR 0xE3, CHR 0x81, CHR 0xAB, CHR 0xE5, CHR 0xA4, CHR 0xB1, CHR 0xE6, CHR 0x95, CHR 0x97, CHR 0xE3, CHR 0x81, CHR 0x97, CHR 0xE3, CHR 0x81, CHR 0xBE, CHR 0xE3, CHR 0x81, CHR 0x97, CHR 0xE3, CHR 0x81, CHR 0x9F]"

subsection \<open>analyzePsd (lines 73-141)\<close>

text \<open>
  Lines 82-93: the canvas is created and sized, the composite is awaited, wrapped and
  put at the origin. The result is the canvas as line 94 finds it.
\<close>

definition drawComposite :: "('g, 's) platform \<Rightarrow> ('g, 's) Psd \<Rightarrow> exn + canvas" where
  "drawComposite pf psdFile =
     (let canvas = createElement_canvas;
          ctx = context2d pf;
          canvas = set_width canvas (Psd.width psdFile);
          canvas = set_height canvas (Psd.height psdFile)
      in case Psd.composite psdFile of
           Inl error \<Rightarrow> Inl error
         | Inr compositeBuffer \<Rightarrow>
             (case new_ImageData compositeBuffer (Psd.width psdFile) (Psd.height psdFile) of
                Inl error \<Rightarrow> Inl error
              | Inr imageData \<Rightarrow>
                  Inr (if ctx then putImageData canvas imageData 0 0 else canvas)))"

text \<open>
  Lines 78-93: the part of the \<open>try\<close> block that comes before the first state
  update. It reads the file, parses it and draws the composite.
\<close>

definition read_parse_draw ::
  "('g, 's) platform \<Rightarrow> File \<Rightarrow> exn + (('g, 's) Psd \<times> canvas)" where
  "read_parse_draw pf file =
     (case arrayBuffer file of
        Inl error \<Rightarrow> Inl error
      | Inr arrayBuffer' \<Rightarrow>
     (case parse pf arrayBuffer' of
        Inl error \<Rightarrow> Inl error
      | Inr psdFile \<Rightarrow>
     (case drawComposite pf psdFile of
        Inl error \<Rightarrow> Inl error
      | Inr canvas \<Rightarrow> Inr (psdFile, canvas))))"

text \<open>
  The body of \<open>try\<close> (lines 78-135). It returns the state it reached and what was
  thrown, if anything: a throw does not undo a state update made before it. The preview
  is set on line 94; the walk of lines 105-134 runs after that and before the info is
  set on line 135, and it can exhaust the call stack. \<open>colorMode.toString()\<close> on the
  number of the parser does not throw.
\<close>

definition try_block ::
  "('g, 's) platform \<Rightarrow> File \<Rightarrow> ('g, 's) page \<Rightarrow> ('g, 's) page \<times> exn option" where
  "try_block pf file s =
     (case read_parse_draw pf file of
        Inl error \<Rightarrow> (s, Some error)
      | Inr (psdFile, canvas) \<Rightarrow>
          (let s = s\<lparr>imagePreview := toDataURL pf canvas\<rparr>;
               info = \<lparr>PsdFileInfo.width = Psd.width psdFile,
                       PsdFileInfo.height = Psd.height psdFile,
                       PsdFileInfo.colorMode = Number_toString (int (Psd.colorMode psdFile)),
                       PsdFileInfo.layers = []\<rparr>
           in case forEach_throwing (collectLayerInfo_on_stack (call_stack pf))
                     (Psd.children psdFile) (PsdFileInfo.layers info) of
                Inl error \<Rightarrow> (s, Some error)
              | Inr layers' \<Rightarrow>
                  (s\<lparr>psdInfo := Some (info\<lparr>PsdFileInfo.layers := layers'\<rparr>)\<rparr>, None)))"

text \<open>
  The handler: nothing happens without a file (line 75); what the body throws is logged
  and reported with \<open>alert\<close> (lines 137-140).
\<close>

definition analyzePsd ::
  "('g, 's) platform \<Rightarrow> File option \<Rightarrow> ('g, 's) page \<Rightarrow> ('g, 's) page" where
  "analyzePsd pf files0 s =
     (case files0 of
        None \<Rightarrow> s
      | Some file \<Rightarrow>
          (case try_block pf file s of
             (s', None) \<Rightarrow> s'
           | (s', Some error) \<Rightarrow>
               s'\<lparr>console_errors := console_errors s' @ [(console_message, error)],
                   alerts := alerts s' @ [alert_message]\<rparr>))"

subsection \<open>What the JSX renders (lines 143-204)\<close>

text \<open>
  The values that stand between braces in the JSX. \<open>a && b\<close> is \<open>a\<close> when \<open>a\<close> is
  falsy and \<open>b\<close> otherwise; an array or an element is an object, which is truthy. React
  renders a string and a number as text and renders nothing for \<open>undefined\<close>, \<open>true\<close>
  and \<open>false\<close>.
\<close>

datatype js = JUndefined | JBool bool | JNum int | JStr string | JObj

fun truthy :: "js \<Rightarrow> bool" where
  "truthy JUndefined = False"
| "truthy (JBool b) = b"
| "truthy (JNum n) = (n \<noteq> 0)"
| "truthy (JStr s) = (s \<noteq> [])"
| "truthy JObj = True"

definition js_and :: "js \<Rightarrow> js \<Rightarrow> js" where
  "js_and a b = (if truthy a then b else a)"

fun child_text :: "js \<Rightarrow> string" where
  "child_text (JStr s) = s"
| "child_text (JNum n) = Number_toString n"
| "child_text JUndefined = []"
| "child_text (JBool b) = []"
| "child_text JObj = []"

fun of_number :: "int option \<Rightarrow> js" where
  "of_number None = JUndefined"
| "of_number (Some n) = JNum n"

fun of_string :: "string option \<Rightarrow> js" where
  "of_string None = JUndefined"
| "of_string (Some s) = JStr s"

fun of_boolean :: "bool option \<Rightarrow> js" where
  "of_boolean None = JUndefined"
| "of_boolean (Some b) = JBool b"

text \<open>The literal texts of the template, in UTF-8.\<close>

definition folder_icon :: string where
  "folder_icon = [CHR 0xF0, CHR 0x9F, CHR 0x93, CHR 0x81]"

definition picture_icon :: string where
  "picture_icon = [CHR 0xF0, CHR 0x9F, CHR 0x96, CHR 0xBC, CHR 0xEF, CHR 0xB8, CHR 0x8F]"

definition label_position :: string where
  "label_position = [CHR 0xE4, CHR 0xBD, CHR 0x8D, CHR 0xE7, CHR 0xBD, CHR 0xAE] @ '': X:''"

definition label_opacity :: string where
  "label_opacity = [CHR 0xE4, CHR 0xB8, CHR 0x8D, CHR 0xE9, CHR 0x80, CHR 0x8F, CHR 0xE6, CHR 0x98, CHR 0x8E, CHR 0xE5, CHR 0xBA, CHR 0xA6] @ '': ''"

definition label_visible :: string where
  "label_visible = [CHR 0xE8, CHR 0xA1, CHR 0xA8, CHR 0xE7, CHR 0xA4, CHR 0xBA] @ '': ''"

definition text_shown :: string where
  "text_shown = [CHR 0xE8, CHR 0xA1, CHR 0xA8, CHR 0xE7, CHR 0xA4, CHR 0xBA]"

definition text_hidden :: string where
  "text_hidden = [CHR 0xE9, CHR 0x9D, CHR 0x9E, CHR 0xE8, CHR 0xA1, CHR 0xA8, CHR 0xE7, CHR 0xA4, CHR 0xBA]"

definition label_blendMode :: string where
  "label_blendMode = [CHR 0xE3, CHR 0x83, CHR 0x96, CHR 0xE3, CHR 0x83, CHR 0xAC, CHR 0xE3, CHR 0x83, CHR 0xB3, CHR 0xE3, CHR 0x83, CHR 0x89, CHR 0xE3, CHR 0x83, CHR 0xA2, CHR 0xE3, CHR 0x83, CHR 0xBC, CHR 0xE3, CHR 0x83, CHR 0x89] @ '': ''"

definition label_clipping :: string where
  "label_clipping = [CHR 0xE3, CHR 0x82, CHR 0xAF, CHR 0xE3, CHR 0x83, CHR 0xAA, CHR 0xE3, CHR 0x83, CHR 0x83, CHR 0xE3, CHR 0x83, CHR 0x94, CHR 0xE3, CHR 0x83, CHR 0xB3, CHR 0xE3, CHR 0x82, CHR 0xB0] @ '': ''"

definition text_clipped :: string where
  "text_clipped = [CHR 0xE3, CHR 0x81, CHR 0x82, CHR 0xE3, CHR 0x82, CHR 0x8A]"

definition text_unclipped :: string where
  "text_unclipped = [CHR 0xE3, CHR 0x81, CHR 0xAA, CHR 0xE3, CHR 0x81, CHR 0x97]"

definition label_text :: string where
  "label_text = '', '' @ [CHR 0xE3, CHR 0x83, CHR 0x86, CHR 0xE3, CHR 0x82, CHR 0xAD, CHR 0xE3, CHR 0x82, CHR 0xB9, CHR 0xE3, CHR 0x83, CHR 0x88] @ '': ''"

definition label_guides :: string where
  "label_guides = '', '' @ [CHR 0xE3, CHR 0x82, CHR 0xAC, CHR 0xE3, CHR 0x82, CHR 0xA4, CHR 0xE3, CHR 0x83, CHR 0x89, CHR 0xE6, CHR 0x95, CHR 0xB0] @ '': ''"

definition label_slices :: string where
  "label_slices = '', '' @ [CHR 0xE3, CHR 0x82, CHR 0xB9, CHR 0xE3, CHR 0x83, CHR 0xA9, CHR 0xE3, CHR 0x82, CHR 0xA4, CHR 0xE3, CHR 0x82, CHR 0xB9, CHR 0xE6, CHR 0x95, CHR 0xB0] @ '': ''"

definition label_width :: string where
  "label_width = [CHR 0xE5, CHR 0xB9, CHR 0x85] @ '': ''"

definition label_height :: string where
  "label_height = [CHR 0xE9, CHR 0xAB, CHR 0x98, CHR 0xE3, CHR 0x81, CHR 0x95] @ '': ''"

definition label_colorMode :: string where
  "label_colorMode = [CHR 0xE3, CHR 0x82, CHR 0xAB, CHR 0xE3, CHR 0x83, CHR 0xA9, CHR 0xE3, CHR 0x83, CHR 0xBC, CHR 0xE3, CHR 0x83, CHR 0xA2, CHR 0xE3, CHR 0x83, CHR 0xBC, CHR 0xE3, CHR 0x83, CHR 0x89] @ '': ''"

text \<open>
  The span of a Layer record up to and including the clipping label (lines 184-190):
  the part of the template that is always there.
\<close>

definition leaf_details :: "('g, 's) layer_info \<Rightarrow> string" where
  "leaf_details layer =
     '' '' @ ''('' @ child_text (of_number (layer_info.width layer)) @ ''x''
       @ child_text (of_number (layer_info.height layer)) @ '', ''
       @ label_position @ child_text (of_number (layer_info.left layer)) @ ''px Y:''
       @ child_text (of_number (layer_info.top layer)) @ ''px, ''
       @ label_opacity @ child_text (of_number (layer_info.opacity layer)) @ ''%, ''
       @ label_visible
       @ (if truthy (of_boolean (layer_info.visible layer)) then text_shown else text_hidden)
       @ '', ''
       @ label_blendMode @ child_text (of_string (layer_info.blendMode layer)) @ '', ''
       @ label_clipping
       @ (if truthy (of_boolean (layer_info.clipped layer)) then text_clipped else text_unclipped)"

text \<open>
  Lines 191-193, the three expressions between braces. Where the property is undefined
  the chain of \<open>&&\<close> stops at it and its value is \<open>undefined\<close>; the length is read only
  of an array that exists.
\<close>

definition text_suffix :: "('g, 's) layer_info \<Rightarrow> js" where
  "text_suffix layer =
     (case layer_info.text' layer of
        None \<Rightarrow> JUndefined
      | Some t \<Rightarrow> js_and (JStr t) (JStr (label_text @ t)))"

definition guides_suffix :: "('a list, 's) layer_info \<Rightarrow> js" where
  "guides_suffix layer =
     (case layer_info.guides layer of
        None \<Rightarrow> JUndefined
      | Some g \<Rightarrow>
          js_and (js_and JObj (JBool (0 < length g)))
            (JStr (label_guides @ Number_toString (int (length g)))))"

definition slices_suffix :: "('g, 'b list) layer_info \<Rightarrow> js" where
  "slices_suffix layer =
     (case layer_info.slices layer of
        None \<Rightarrow> JUndefined
      | Some sl \<Rightarrow>
          js_and (js_and JObj (JBool (0 < length sl)))
            (JStr (label_slices @ Number_toString (int (length sl)))))"

definition span_text :: "('a list, 'b list) layer_info \<Rightarrow> string" where
  "span_text layer =
     leaf_details layer @ child_text (text_suffix layer) @ child_text (guides_suffix layer)
       @ child_text (slices_suffix layer) @ '')''"

text \<open>The text of one row of the layer list (lines 180-196).\<close>

definition layer_row :: "('a list, 'b list) layer_info \<Rightarrow> string" where
  "layer_row layer =
     (if layer_info.type layer = ''Group'' then folder_icon else picture_icon) @ '' ''
       @ layer_info.name layer
       @ child_text (js_and (JBool (layer_info.type layer = ''Layer'')) (JStr (span_text layer)))"

text \<open>The preview element with its properties (lines 157-164), and the info panel.\<close>

record Image =
  src :: string
  alt :: string
  width :: nat
  height :: nat

record info_panel =
  width_text :: string
  height_text :: string
  colorMode_text :: string
  layer_rows :: "string list"

record view =
  preview :: "Image option"
  panel :: "info_panel option"

text \<open>
  The component as a function of its state. \<open>psdInfo?.width || 0\<close> is the width when
  there is an info whose width is not zero, and zero otherwise.
\<close>

definition render :: "('a list, 'b list) page \<Rightarrow> view" where
  "render s =
     \<lparr>preview =
        (if truthy (JStr (imagePreview s)) then
           Some \<lparr>src = imagePreview s, alt = ''PSD preview'',
                 Image.width =
                   (case psdInfo s of
                      None \<Rightarrow> 0
                    | Some i \<Rightarrow> if PsdFileInfo.width i \<noteq> 0 then PsdFileInfo.width i else 0),
                 Image.height =
                   (case psdInfo s of
                      None \<Rightarrow> 0
                    | Some i \<Rightarrow> if PsdFileInfo.height i \<noteq> 0 then PsdFileInfo.height i else 0)\<rparr>
         else None),
      panel =
        (case psdInfo s of
           None \<Rightarrow> None
         | Some i \<Rightarrow>
             Some \<lparr>width_text = label_width @ digits (PsdFileInfo.width i) @ ''px'',
                   height_text = label_height @ digits (PsdFileInfo.height i) @ ''px'',
                   colorMode_text = label_colorMode @ PsdFileInfo.colorMode i,
                   layer_rows = map layer_row (PsdFileInfo.layers i)\<rparr>)\<rparr>"

subsection \<open>Arrays as references\<close>

text \<open>
  For the question of what a display record shares with the tree, \<open>guides\<close> and
  \<open>slices\<close> hold addresses, and a store maps an address to the array that lives there.
  A record and a node are separate objects (the record is a fresh object literal), so
  assigning to a property of one never touches the other; a change made inside an array
  is a change of the store.
\<close>

type_synonym addr = nat

record store =
  guides_at :: "addr \<rightharpoonup> guide list"
  slices_at :: "addr \<rightharpoonup> slice list"

definition node_guides :: "store \<Rightarrow> (addr, addr) node \<Rightarrow> guide list option" where
  "node_guides st n = (case node.guides n of None \<Rightarrow> None | Some a \<Rightarrow> guides_at st a)"

definition node_slices :: "store \<Rightarrow> (addr, addr) node \<Rightarrow> slice list option" where
  "node_slices st n = (case node.slices n of None \<Rightarrow> None | Some a \<Rightarrow> slices_at st a)"

definition record_guides :: "store \<Rightarrow> (addr, addr) layer_info \<Rightarrow> guide list option" where
  "record_guides st r = (case layer_info.guides r of None \<Rightarrow> None | Some a \<Rightarrow> guides_at st a)"

definition record_slices :: "store \<Rightarrow> (addr, addr) layer_info \<Rightarrow> slice list option" where
  "record_slices st r = (case layer_info.slices r of None \<Rightarrow> None | Some a \<Rightarrow> slices_at st a)"

text \<open>
  \<open>x.guides.push(g)\<close> and \<open>x.slices.push(sl)\<close>, given the reference that \<open>x.guides\<close>
  or \<open>x.slices\<close> holds; there is nothing to push onto when it is undefined.
\<close>

definition push_guide :: "addr option \<Rightarrow> guide \<Rightarrow> store \<Rightarrow> store" where
  "push_guide ref g st =
     (case ref of
        None \<Rightarrow> st
      | Some a \<Rightarrow>
          (case guides_at st a of
             None \<Rightarrow> st
           | Some gs \<Rightarrow> st\<lparr>guides_at := (guides_at st)(a \<mapsto> gs @ [g])\<rparr>))"

definition push_slice :: "addr option \<Rightarrow> slice \<Rightarrow> store \<Rightarrow> store" where
  "push_slice ref sl st =
     (case ref of
        None \<Rightarrow> st
      | Some a \<Rightarrow>
          (case slices_at st a of
             None \<Rightarrow> st
           | Some sls \<Rightarrow> st\<lparr>slices_at := (slices_at st)(a \<mapsto> sls @ [sl])\<rparr>))"

subsection \<open>Inputs for the examples\<close>

text \<open>Two guides, a slice, and a leaf whose guides and slices are references into a store.\<close>

definition example_guides :: "guide list" where
  "example_guides =
     [\<lparr>position = 100, orientation = horizontal\<rparr>, \<lparr>position = 40, orientation = vertical\<rparr>]"

definition example_slice :: slice where
  "example_slice =
     \<lparr>slice.name = ''header'',
      bounds = \<lparr>bounds.top = 0, bounds.left = 0, bounds.bottom = 10, bounds.right = 20\<rparr>\<rparr>"

definition shared_leaf :: "(addr, addr) node" where
  "shared_leaf =
     Node ''Layer'' ''bg'' (Some 10) (Some 20) (Some 255) (Some True) None None
       (Some 0) (Some 0) (Some ''normal'') (Some False) None (Some 0) (Some 1)"

definition shared_store :: store where
  "shared_store = \<lparr>guides_at = [0 \<mapsto> []], slices_at = [1 \<mapsto> []]\<rparr>"

text \<open>
  Documents as the parser returns them, a parser that accepts the bytes that start with
  the signature 8BPS and throws on everything else, and two files.
\<close>

definition blank_psd :: "nat \<Rightarrow> nat \<Rightarrow> (guide list, slice list) Psd" where
  "blank_psd w h =
     \<lparr>Psd.width = w, Psd.height = h, Psd.colorMode = 3,
      Psd.composite = Inr (replicate (4 * w * h) 0), Psd.children = []\<rparr>"

definition example_psd :: "(guide list, slice list) Psd" where
  "example_psd =
     \<lparr>Psd.width = 1, Psd.height = 1, Psd.colorMode = 3,
      Psd.composite = Inr [255, 0, 0, 255], Psd.children = [example_leaf ''bg'']\<rparr>"

definition platform_for :: "(guide list, slice list) Psd \<Rightarrow> (guide list, slice list) platform" where
  "platform_for psdFile =
     \<lparr>parse = (\<lambda>bytes. if take 4 bytes = [56, 66, 80, 83] then Inr psdFile
                        else Inl (Thrown ''Invalid signature'')),
      context2d = True,
      png_base64 = (\<lambda>c. ''iVBORw0KGgo=''),
      call_stack = 10000\<rparr>"

definition good_file :: File where
  "good_file = \<lparr>arrayBuffer = Inr [56, 66, 80, 83, 0, 1]\<rparr>"

definition bad_file :: File where
  "bad_file = \<lparr>arrayBuffer = Inr [71, 73, 70, 56]\<rparr>"

text \<open>
  A document of two pixels, one transparent and one half opaque, whose only root child
  is a group in a group in a group; its file; and a browser whose stack holds two
  activations of the walk, with a parser that knows both documents. The stand-in for
  the PNG encoder tells canvases apart by their size.
\<close>

definition nested_psd :: "(guide list, slice list) Psd" where
  "nested_psd =
     \<lparr>Psd.width = 2, Psd.height = 1, Psd.colorMode = 3,
      Psd.composite = Inr [10, 20, 30, 0, 200, 100, 50, 128],
      Psd.children =
        [example_group ''outer'' [example_group ''middle'' [example_group ''inner'' []]]]\<rparr>"

definition nested_file :: File where
  "nested_file = \<lparr>arrayBuffer = Inr [56, 66, 80, 83, 0, 2]\<rparr>"

definition small_stack_platform :: "(guide list, slice list) platform" where
  "small_stack_platform =
     \<lparr>parse = (\<lambda>bytes. if bytes = [56, 66, 80, 83, 0, 1] then Inr example_psd
                        else if bytes = [56, 66, 80, 83, 0, 2] then Inr nested_psd
                        else Inl (Thrown ''Invalid signature'')),
      context2d = True,
      png_base64 = (\<lambda>c. digits (canvas.width c) @ ''x'' @ digits (canvas.height c)),
      call_stack = 2\<rparr>"

text \<open>A group over the leaf whose arrays are references; its own guides are at address 2.\<close>

definition shared_group :: "(addr, addr) node" where
  "shared_group =
     Node ''Group'' ''set'' None None None None (Some True) (Some [shared_leaf])
       None None None None None (Some 2) None"

section \<open>The flattener\<close>

lemma collect_Layer:
  "node.type n = ''Layer'' \<Longrightarrow> collectLayerInfo n acc = acc @ [layerRecord n]"
  by (simp add: collectLayerInfo.simps)

lemma collect_Group:
  "node.type n = ''Group'' \<Longrightarrow>
   collectLayerInfo n acc = fold collectLayerInfo (child_nodes n) (acc @ [groupRecord n])"
  by (simp add: collectLayerInfo.simps child_nodes_def split: option.split)

lemma collect_other:
  "node.type n \<noteq> ''Layer'' \<Longrightarrow> node.type n \<noteq> ''Group'' \<Longrightarrow>
   collectLayerInfo n acc = acc"
  by (simp add: collectLayerInfo.simps)

lemma fold_append_concat:
  "(\<And>x acc. x \<in> set xs \<Longrightarrow> g x acc = acc @ f x) \<Longrightarrow>
   fold g xs acc = acc @ concat (map f xs)"
  by (induction xs arbitrary: acc) simp_all

text \<open>The records a node contributes do not depend on what was collected before.\<close>

lemma collect_append: "collectLayerInfo n acc = acc @ collectLayerInfo n []"
proof (induction n acc rule: collectLayerInfo.induct)
  case (1 n acc)
  show ?case
  proof (cases "node.type n = ''Group''")
    case False
    then show ?thesis by (simp add: collectLayerInfo.simps)
  next
    case True
    then have nl: "node.type n \<noteq> ''Layer''" by simp
    show ?thesis
    proof (cases "node.children n")
      case None
      with True show ?thesis by (simp add: collectLayerInfo.simps)
    next
      case (Some cs)
      have step: "\<And>c acc. c \<in> set cs \<Longrightarrow> collectLayerInfo c acc = acc @ collectLayerInfo c []"
        using "1.IH" [OF nl True Some] .
      have "fold collectLayerInfo cs acc = acc @ concat (map (\<lambda>c. collectLayerInfo c []) cs)"
        for acc
        using step by (rule fold_append_concat)
      then have "fold collectLayerInfo cs (acc @ [groupRecord n])
                 = acc @ fold collectLayerInfo cs [groupRecord n]"
        by (metis append.assoc)
      with True Some show ?thesis by (simp add: collectLayerInfo.simps)
    qed
  qed
qed

lemma fold_collect:
  "fold collectLayerInfo ns acc = acc @ concat (map (\<lambda>n. collectLayerInfo n []) ns)"
  by (rule fold_append_concat) (rule collect_append)

lemma flatten_concat: "flatten ns = concat (map (\<lambda>n. collectLayerInfo n []) ns)"
  by (simp add: flatten_def fold_collect)

lemma flatten_Nil: "flatten [] = []"
  by (simp add: flatten_def)

lemma flatten_Cons: "flatten (n # ns) = collectLayerInfo n [] @ flatten ns"
  by (simp add: flatten_concat)

lemma flatten_single: "flatten [n] = collectLayerInfo n []"
  by (simp add: flatten_concat)

lemma flatten_append: "flatten (xs @ ys) = flatten xs @ flatten ys"
  by (simp add: flatten_concat)

lemma collect_Group_flatten:
  "node.type n = ''Group'' \<Longrightarrow>
   collectLayerInfo n acc = acc @ groupRecord n # flatten (child_nodes n)"
  by (simp add: collect_Group fold_collect flatten_concat)

lemma collect_layer_tree:
  "layer_tree n \<Longrightarrow> collectLayerInfo n [] = map display_record (preorder n)"
proof (induction n rule: preorder.induct)
  case (1 n)
  show ?case
  proof (cases "node.type n = ''Layer''")
    case True
    with "1.prems" have "child_nodes n = []"
      by (simp add: layer_tree.simps)
    with True show ?thesis
      by (simp add: collect_Layer preorder.simps [of n] display_record_def)
  next
    case False
    with "1.prems" have g: "node.type n = ''Group''" and cs: "list_all layer_tree (child_nodes n)"
      by (simp_all add: layer_tree.simps split: if_splits)
    have "collectLayerInfo c [] = map display_record (preorder c)" if "c \<in> set (child_nodes n)" for c
      using that cs "1.IH" by (simp add: list_all_iff)
    then have "flatten (child_nodes n) = map display_record (concat (map preorder (child_nodes n)))"
      by (simp add: flatten_concat map_concat cong: map_cong)
    with g False show ?thesis
      by (simp add: collect_Group_flatten preorder.simps [of n] display_record_def)
  qed
qed

lemma example_leaf_collect:
  "collectLayerInfo (example_leaf nm) [] = [layerRecord (example_leaf nm)]"
  by (simp add: collect_Layer example_leaf_def)

lemma example_leaf_record:
  "layer_info.name (layerRecord (example_leaf nm)) = nm"
  "layer_info.width (layerRecord (example_leaf nm)) = Some 10"
  by (simp_all add: layerRecord_def example_leaf_def)

lemma example_group_fields:
  "node.type (example_group nm cs) = ''Group''"
  "child_nodes (example_group nm cs) = cs"
  "layer_info.name (groupRecord (example_group nm cs)) = nm"
  "layer_info.width (groupRecord (example_group nm cs)) = None"
  by (simp_all add: groupRecord_def child_nodes_def example_group_def)

text \<open>
  C1. On a tree whose nodes are all Layers or Groups (a Layer being a leaf), the
  flattener, applied to the root children in order, yields the display records of all the
  nodes in pre-order, one record per node, as one flat list.
\<close>

theorem flatten_preorder:
  assumes "list_all layer_tree roots"
  shows "flatten roots = map display_record (preorder_forest roots)
         \<and> length (flatten roots) = length (preorder_forest roots)"
proof -
  have "collectLayerInfo n [] = map display_record (preorder n)" if "n \<in> set roots" for n
    using that assms by (simp add: list_all_iff collect_layer_tree)
  then have "flatten roots = map display_record (preorder_forest roots)"
    by (simp add: flatten_concat preorder_forest_def map_concat cong: map_cong)
  then show ?thesis by simp
qed

theorem flatten_preorder_witness:
  "list_all layer_tree [example_group ''g'' [example_leaf ''a'', example_leaf ''b'']]
   \<and> map layer_info.type
       (flatten [example_group ''g'' [example_leaf ''a'', example_leaf ''b'']])
     = [''Group'', ''Layer'', ''Layer'']
   \<and> map layer_info.name
       (flatten [example_group ''g'' [example_leaf ''a'', example_leaf ''b'']])
     = [''g'', ''a'', ''b'']
   \<and> list_all layer_tree ([] :: (guide list, slice list) node list)
   \<and> flatten ([] :: (guide list, slice list) node list) = []"
proof -
  have wf: "list_all layer_tree [example_group ''g'' [example_leaf ''a'', example_leaf ''b'']]"
    by (simp add: layer_tree.simps child_nodes_def example_group_def example_leaf_def)
  have wf0: "list_all layer_tree ([] :: (guide list, slice list) node list)"
    by simp
  show ?thesis
    using flatten_preorder [OF wf] flatten_preorder [OF wf0] wf
    by (simp add: preorder_forest_def preorder.simps child_nodes_def display_record_def
        layerRecord_def groupRecord_def example_group_def example_leaf_def)
qed

text \<open>
  C5. For a node of type Layer the flattener appends exactly one record, and the
  numeric fields width, height, top, left and opacity of that record are the fields of
  the node, unchanged.
\<close>

theorem leaf_numeric_fields_copied:
  assumes "node.type n = ''Layer''"
  shows "\<exists>r. collectLayerInfo n acc = acc @ [r]
           \<and> layer_info.width r = node.width n
           \<and> layer_info.height r = node.height n
           \<and> layer_info.top r = node.top n
           \<and> layer_info.left r = node.left n
           \<and> layer_info.opacity r = node.opacity n"
  using assms by (simp add: collect_Layer layerRecord_def)

theorem leaf_numeric_fields_copied_witness:
  "node.type (example_leaf ''bg'') = ''Layer''
   \<and> (\<exists>r. collectLayerInfo (example_leaf ''bg'') [] = [r]
           \<and> layer_info.width r = Some 10
           \<and> layer_info.height r = Some 20
           \<and> layer_info.top r = Some (- 3)
           \<and> layer_info.left r = Some 4
           \<and> layer_info.opacity r = Some 255)"
  using leaf_numeric_fields_copied [of "example_leaf ''bg''" "[]"]
  by (simp add: example_leaf_def)

text \<open>
  C6. For a node of type Group the flattener appends the group's record first; that
  record carries the name, the open flag, the guides and the slices of the node, and
  none of width, height, opacity, visibility, position, text, blend mode or clipping.
  The records of the children follow in the node's own child order, each child with
  all of its descendants, and only then the records of the group's later siblings.
\<close>

theorem group_record_then_children:
  assumes "node.type n = ''Group''"
  shows "collectLayerInfo n acc
           = acc @ [groupRecord n] @ concat (map (\<lambda>c. collectLayerInfo c []) (child_nodes n))
         \<and> flatten (n # siblings)
           = [groupRecord n] @ concat (map (\<lambda>c. collectLayerInfo c []) (child_nodes n))
             @ flatten siblings
         \<and> layer_info.name (groupRecord n) = node.name n
         \<and> layer_info.type (groupRecord n) = ''Group''
         \<and> layer_info.open' (groupRecord n) = node.open' n
         \<and> layer_info.guides (groupRecord n) = node.guides n
         \<and> layer_info.slices (groupRecord n) = node.slices n
         \<and> layer_info.width (groupRecord n) = None
         \<and> layer_info.height (groupRecord n) = None
         \<and> layer_info.opacity (groupRecord n) = None
         \<and> layer_info.visible (groupRecord n) = None
         \<and> layer_info.top (groupRecord n) = None
         \<and> layer_info.left (groupRecord n) = None
         \<and> layer_info.text' (groupRecord n) = None
         \<and> layer_info.blendMode (groupRecord n) = None
         \<and> layer_info.clipped (groupRecord n) = None"
proof -
  have "collectLayerInfo n acc
          = acc @ [groupRecord n] @ concat (map (\<lambda>c. collectLayerInfo c []) (child_nodes n))"
    for acc
    using assms by (simp add: collect_Group_flatten flatten_concat)
  then show ?thesis
    using assms by (simp add: flatten_Cons groupRecord_def)
qed

theorem group_record_then_children_witness:
  "node.type (example_group ''g'' [example_leaf ''a'', example_group ''h'' [example_leaf ''b'']])
     = ''Group''
   \<and> map layer_info.name
       (flatten [example_group ''g'' [example_leaf ''a'', example_group ''h'' [example_leaf ''b'']],
                 example_leaf ''c''])
     = [''g'', ''a'', ''h'', ''b'', ''c'']
   \<and> map layer_info.width
       (flatten [example_group ''g'' [example_leaf ''a'', example_group ''h'' [example_leaf ''b'']],
                 example_leaf ''c''])
     = [None, Some 10, None, Some 10, Some 10]"
proof -
  note g = example_group_fields(1)
  have outer: "flatten [example_group ''g'' [example_leaf ''a'', example_group ''h'' [example_leaf ''b'']],
                 example_leaf ''c'']
     = [groupRecord (example_group ''g'' [example_leaf ''a'', example_group ''h'' [example_leaf ''b'']]),
        layerRecord (example_leaf ''a'')]
       @ collectLayerInfo (example_group ''h'' [example_leaf ''b'']) []
       @ [layerRecord (example_leaf ''c'')]"
    using group_record_then_children [OF g, of "''g''"
        "[example_leaf ''a'', example_group ''h'' [example_leaf ''b'']]" "[]" "[example_leaf ''c'']"]
    by (simp add: example_group_fields example_leaf_collect flatten_Cons flatten_Nil)
  have inner: "collectLayerInfo (example_group ''h'' [example_leaf ''b'']) []
     = [groupRecord (example_group ''h'' [example_leaf ''b'']), layerRecord (example_leaf ''b'')]"
    using group_record_then_children [OF g, of "''h''" "[example_leaf ''b'']" "[]" "[]"]
    by (simp add: example_group_fields example_leaf_collect)
  show ?thesis
    by (simp add: outer inner example_group_fields example_leaf_record)
qed

text \<open>
  C4. A node whose type is neither Layer nor Group contributes no record; the function
  returns the list it was given (it has no failing branch), and the traversal goes on
  with the nodes after it, at the root and inside a group alike.
\<close>

theorem unrecognized_node_skipped:
  assumes "node.type n \<noteq> ''Layer''" and "node.type n \<noteq> ''Group''"
  shows "collectLayerInfo n acc = acc
         \<and> fold collectLayerInfo (before @ n # after) acc
           = fold collectLayerInfo (before @ after) acc
         \<and> flatten (before @ n # after) = flatten before @ flatten after"
  using assms by (simp add: collect_other fold_collect flatten_concat)

theorem unrecognized_node_skipped_witness:
  "node.type (Node ''Psd'' ''x'' None None None None None None None None None None None None None
               :: (guide list, slice list) node) \<noteq> ''Layer''
   \<and> node.type (Node ''Psd'' ''x'' None None None None None None None None None None None None None
               :: (guide list, slice list) node) \<noteq> ''Group''
   \<and> map layer_info.name
       (flatten [example_leaf ''a'',
                 Node ''Psd'' ''x'' None None None None None None None None None None None None None,
                 example_leaf ''b''])
     = [''a'', ''b'']"
  using unrecognized_node_skipped [of
      "Node ''Psd'' ''x'' None None None None None None None None None None None None None"
      "[]" "[example_leaf ''a'']" "[example_leaf ''b'']"]
  by (simp add: example_leaf_collect example_leaf_record flatten_Cons flatten_Nil)

text \<open>
  C10. The children of a node whose type is neither Layer nor Group are never visited:
  whatever subtree hangs below such a node, Layers and Groups included, the output is
  the output of the tree without the node.
\<close>

theorem unrecognized_subtree_skipped:
  assumes "ty \<noteq> ''Layer''" and "ty \<noteq> ''Group''"
  shows "collectLayerInfo (Node ty nm w h opa vis opn (Some cs) tp lf bm cl tx gs sl) acc
           = acc
         \<and> flatten (before @ Node ty nm w h opa vis opn (Some cs) tp lf bm cl tx gs sl # after)
           = flatten (before @ after)"
  using assms by (simp add: collect_other flatten_concat)

theorem unrecognized_subtree_skipped_witness:
  "''Psd'' \<noteq> ''Layer'' \<and> ''Psd'' \<noteq> ''Group''
   \<and> map layer_info.name
       (flatten [example_group ''g''
                   [example_leaf ''a'',
                    Node ''Psd'' ''x'' None None None None None
                      (Some [example_leaf ''inner'', example_group ''deep'' [example_leaf ''deeper'']])
                      None None None None None None None,
                    example_leaf ''b'']])
     = [''g'', ''a'', ''b'']"
proof -
  have ne: "''Psd'' \<noteq> ''Layer''" "''Psd'' \<noteq> ''Group''"
    by simp_all
  have inner: "flatten [example_leaf ''a'',
                    Node ''Psd'' ''x'' None None None None None
                      (Some [example_leaf ''inner'', example_group ''deep'' [example_leaf ''deeper'']])
                      None None None None None None None,
                    example_leaf ''b'']
               = [layerRecord (example_leaf ''a''), layerRecord (example_leaf ''b'')]"
    using unrecognized_subtree_skipped [OF ne, where before = "[example_leaf ''a'']"
        and after = "[example_leaf ''b'']" and nm = "''x''" and w = None and h = None
        and opa = None and vis = None and opn = None and tp = None and lf = None
        and bm = None and cl = None and tx = None and gs = None and sl = None
        and cs = "[example_leaf ''inner'', example_group ''deep'' [example_leaf ''deeper'']]"]
    by (simp add: example_leaf_collect flatten_Cons flatten_Nil)
  show ?thesis
    by (simp add: flatten_single collect_Group_flatten example_group_fields inner
        example_leaf_record)
qed

section \<open>The walk on a bounded stack\<close>

lemma forEach_throwing_cases:
  assumes "\<And>c a. c \<in> set cs \<Longrightarrow> f c a = (if P c then Inr (g c a) else Inl e)"
  shows "forEach_throwing f cs acc = (if list_all P cs then Inr (fold g cs acc) else Inl e)"
  using assms by (induction cs arbitrary: acc) simp_all

lemma foldr_max_le: "foldr max (map f xs) (0::nat) \<le> k \<longleftrightarrow> list_all (\<lambda>x. f x \<le> k) xs"
  by (induction xs) simp_all

lemma forest_depth_le: "forest_depth cs \<le> k \<longleftrightarrow> list_all (\<lambda>c. call_depth c \<le> k) cs"
  by (simp add: forest_depth_def foldr_max_le)

lemma call_depth_pos: "0 < call_depth n"
  by (simp add: call_depth.simps [of n])

lemma call_depth_Group:
  "node.type n = ''Group'' \<Longrightarrow> call_depth n = Suc (forest_depth (child_nodes n))"
  by (simp add: call_depth.simps [of n] forest_depth_def)

lemma call_depth_other: "node.type n \<noteq> ''Group'' \<Longrightarrow> call_depth n = 1"
  by (simp add: call_depth.simps [of n])

text \<open>
  The bounded walk returns what the function returns when the stack is deep enough for
  the node, and throws a RangeError when it is not.
\<close>

lemma collectLayerInfo_on_stack_eq:
  fixes n :: "('g, 's) node"
  shows "collectLayerInfo_on_stack k n acc
     = (if call_depth n \<le> k then Inr (collectLayerInfo n acc) else Inl RangeError)"
proof (induction k arbitrary: n acc)
  case 0
  then show ?case using call_depth_pos [of n] by simp
next
  case (Suc k)
  show ?case
  proof (cases "node.type n = ''Group''")
    case False
    then show ?thesis
      by (simp add: call_depth_other collectLayerInfo.simps [of n])
  next
    case True
    have walk: "forEach_throwing (collectLayerInfo_on_stack k) cs a
                = (if list_all (\<lambda>c. call_depth c \<le> k) cs
                   then Inr (fold collectLayerInfo cs a) else Inl RangeError)"
      for cs :: "('g, 's) node list" and a
      by (rule forEach_throwing_cases) (rule Suc.IH)
    show ?thesis
    proof (cases "node.children n")
      case None
      with True show ?thesis
        by (simp add: call_depth_Group forest_depth_le child_nodes_def
            collectLayerInfo.simps [of n])
    next
      case (Some cs)
      with True show ?thesis
        by (simp add: walk call_depth_Group forest_depth_le child_nodes_def
            collectLayerInfo.simps [of n])
    qed
  qed
qed

lemma walk_on_stack:
  "forEach_throwing (collectLayerInfo_on_stack k) roots []
     = (if forest_depth roots \<le> k then Inr (flatten roots) else Inl RangeError)"
proof -
  have "forEach_throwing (collectLayerInfo_on_stack k) roots []
        = (if list_all (\<lambda>c. call_depth c \<le> k) roots
           then Inr (fold collectLayerInfo roots []) else Inl RangeError)"
    by (rule forEach_throwing_cases) (rule collectLayerInfo_on_stack_eq)
  then show ?thesis by (simp add: forest_depth_le flatten_def)
qed

lemma example_depths:
  "call_depth (example_leaf nm) = 1"
  "call_depth (example_group nm cs) = Suc (forest_depth cs)"
  "forest_depth [] = 0"
  "forest_depth (n # ns) = max (call_depth n) (forest_depth ns)"
  by (simp_all add: call_depth_other call_depth_Group example_leaf_def example_group_fields
      forest_depth_def)

section \<open>What a display record shares with the tree\<close>

lemma record_refs:
  "layer_info.guides (layerRecord n) = node.guides n"
  "layer_info.slices (layerRecord n) = node.slices n"
  "layer_info.guides (groupRecord n) = node.guides n"
  "layer_info.slices (groupRecord n) = node.slices n"
  by (simp_all add: layerRecord_def groupRecord_def)

lemma same_ref_same_view:
  "layer_info.guides r = node.guides n \<Longrightarrow> record_guides st r = node_guides st n"
  "layer_info.slices r = node.slices n \<Longrightarrow> record_slices st r = node_slices st n"
  by (simp_all add: record_guides_def node_guides_def record_slices_def node_slices_def)

lemma push_guide_seen:
  "node_guides st n = Some gs \<Longrightarrow>
   node_guides (push_guide (node.guides n) g st) n = Some (gs @ [g])"
  by (cases "node.guides n") (simp_all add: node_guides_def push_guide_def)

lemma push_slice_seen:
  "node_slices st n = Some sls \<Longrightarrow>
   node_slices (push_slice (node.slices n) sl st) n = Some (sls @ [sl])"
  by (cases "node.slices n") (simp_all add: node_slices_def push_slice_def)

lemma first_record:
  assumes "node.type n = ''Layer'' \<or> node.type n = ''Group''"
  shows "\<exists>rest. collectLayerInfo n acc = acc @ display_record n # rest"
proof (cases "node.type n = ''Layer''")
  case True
  then show ?thesis by (simp add: collect_Layer display_record_def)
next
  case False
  with assms have "node.type n = ''Group''" by simp
  with False show ?thesis by (simp add: collect_Group_flatten display_record_def)
qed

lemma display_record_scalars:
  "layer_info.name (display_record n) = node.name n"
  "layer_info.type (display_record n) = node.type n"
  "layer_info.guides (display_record n) = node.guides n"
  "layer_info.slices (display_record n) = node.slices n"
  "node.type n = ''Layer'' \<Longrightarrow>
     layer_info.width (display_record n) = node.width n
     \<and> layer_info.height (display_record n) = node.height n
     \<and> layer_info.opacity (display_record n) = node.opacity n
     \<and> layer_info.visible (display_record n) = node.visible n
     \<and> layer_info.top (display_record n) = node.top n
     \<and> layer_info.left (display_record n) = node.left n
     \<and> layer_info.blendMode (display_record n) = node.blendMode n
     \<and> layer_info.clipped (display_record n) = node.clipped n
     \<and> layer_info.text' (display_record n) = node.text' n"
  "node.type n = ''Group'' \<Longrightarrow> layer_info.open' (display_record n) = node.open' n"
  by (simp_all add: display_record_def layerRecord_def groupRecord_def)

text \<open>
  C3, as the code has it. The record that the flattener emits for a Layer or a Group is
  a new record. Its scalar fields are values taken from the node: the name and the type
  always, for a Layer also width, height, opacity, visibility, top, left, blend mode,
  clipping flag and text, for a Group also the open flag. Its \<open>guides\<close> and \<open>slices\<close>
  are the very references of the node. So in every store the record and the node see
  the same two arrays, and an element pushed through the record's reference is seen
  through the node; no change of the store changes a scalar field, the record being a
  value of its own.
\<close>

theorem record_shares_arrays:
  assumes "node.type n = ''Layer'' \<or> node.type n = ''Group''"
  shows "\<exists>r rest. collectLayerInfo n acc = acc @ r # rest
           \<and> layer_info.name r = node.name n
           \<and> layer_info.type r = node.type n
           \<and> (node.type n = ''Layer'' \<longrightarrow>
                layer_info.width r = node.width n
                \<and> layer_info.height r = node.height n
                \<and> layer_info.opacity r = node.opacity n
                \<and> layer_info.visible r = node.visible n
                \<and> layer_info.top r = node.top n
                \<and> layer_info.left r = node.left n
                \<and> layer_info.blendMode r = node.blendMode n
                \<and> layer_info.clipped r = node.clipped n
                \<and> layer_info.text' r = node.text' n)
           \<and> (node.type n = ''Group'' \<longrightarrow> layer_info.open' r = node.open' n)
           \<and> layer_info.guides r = node.guides n
           \<and> layer_info.slices r = node.slices n
           \<and> (\<forall>st. record_guides st r = node_guides st n
                    \<and> record_slices st r = node_slices st n)
           \<and> (\<forall>st g gs. node_guides st n = Some gs \<longrightarrow>
                 node_guides (push_guide (layer_info.guides r) g st) n = Some (gs @ [g]))
           \<and> (\<forall>st sl sls. node_slices st n = Some sls \<longrightarrow>
                 node_slices (push_slice (layer_info.slices r) sl st) n = Some (sls @ [sl]))"
proof -
  let ?r = "display_record n"
  from first_record [OF assms] obtain rest where
    c: "collectLayerInfo n acc = acc @ ?r # rest"
    by blast
  note g = display_record_scalars(3) [of n] and s = display_record_scalars(4) [of n]
  have "record_guides st ?r = node_guides st n \<and> record_slices st ?r = node_slices st n" for st
    using g s by (simp add: same_ref_same_view)
  moreover have "node_guides (push_guide (layer_info.guides ?r) x st) n = Some (gs @ [x])"
    if "node_guides st n = Some gs" for st x gs
    using that by (simp add: g push_guide_seen)
  moreover have "node_slices (push_slice (layer_info.slices ?r) x st) n = Some (sls @ [x])"
    if "node_slices st n = Some sls" for st x sls
    using that by (simp add: s push_slice_seen)
  ultimately show ?thesis
    using c display_record_scalars [of n] by blast
qed

theorem record_shares_arrays_witness:
  "(node.type shared_leaf = ''Layer'' \<or> node.type shared_leaf = ''Group'')
   \<and> (node.type shared_group = ''Layer'' \<or> node.type shared_group = ''Group'')
   \<and> node_guides shared_store shared_leaf = Some []
   \<and> node_slices shared_store shared_leaf = Some []
   \<and> (\<exists>r. flatten [shared_leaf] = [r]
          \<and> layer_info.name r = ''bg'' \<and> layer_info.type r = ''Layer''
          \<and> layer_info.width r = Some 10 \<and> layer_info.height r = Some 20
          \<and> layer_info.opacity r = Some 255 \<and> layer_info.visible r = Some True
          \<and> layer_info.top r = Some 0 \<and> layer_info.left r = Some 0
          \<and> layer_info.blendMode r = Some ''normal'' \<and> layer_info.clipped r = Some False
          \<and> layer_info.text' r = None
          \<and> layer_info.guides r = Some 0 \<and> layer_info.slices r = Some 1
          \<and> record_guides shared_store r = Some []
          \<and> node_guides
               (push_guide (layer_info.guides r) \<lparr>position = 5, orientation = vertical\<rparr>
                  shared_store) shared_leaf
             = Some [\<lparr>position = 5, orientation = vertical\<rparr>]
          \<and> node_slices (push_slice (layer_info.slices r) example_slice shared_store) shared_leaf
             = Some [example_slice])
   \<and> (\<exists>r rest. flatten [shared_group] = r # rest
          \<and> layer_info.name r = ''set'' \<and> layer_info.type r = ''Group''
          \<and> layer_info.open' r = Some True \<and> layer_info.guides r = Some 2)"
proof -
  have t: "node.type shared_leaf = ''Layer'' \<or> node.type shared_leaf = ''Group''"
    by (simp add: shared_leaf_def)
  have tg: "node.type shared_group = ''Layer'' \<or> node.type shared_group = ''Group''"
    by (simp add: shared_group_def)
  have n0: "node_guides shared_store shared_leaf = Some []"
    "node_slices shared_store shared_leaf = Some []"
    by (simp_all add: node_guides_def node_slices_def shared_leaf_def shared_store_def)
  from record_shares_arrays [OF t, of "[]"] obtain r rest where
    c: "collectLayerInfo shared_leaf [] = [] @ r # rest"
    and sc: "layer_info.name r = node.name shared_leaf"
      "layer_info.type r = node.type shared_leaf"
      "node.type shared_leaf = ''Layer'' \<longrightarrow>
                layer_info.width r = node.width shared_leaf
                \<and> layer_info.height r = node.height shared_leaf
                \<and> layer_info.opacity r = node.opacity shared_leaf
                \<and> layer_info.visible r = node.visible shared_leaf
                \<and> layer_info.top r = node.top shared_leaf
                \<and> layer_info.left r = node.left shared_leaf
                \<and> layer_info.blendMode r = node.blendMode shared_leaf
                \<and> layer_info.clipped r = node.clipped shared_leaf
                \<and> layer_info.text' r = node.text' shared_leaf"
    and g: "layer_info.guides r = node.guides shared_leaf"
    and s: "layer_info.slices r = node.slices shared_leaf"
    and v: "\<forall>st. record_guides st r = node_guides st shared_leaf
                \<and> record_slices st r = node_slices st shared_leaf"
    and pg: "\<forall>st g gs. node_guides st shared_leaf = Some gs \<longrightarrow>
                 node_guides (push_guide (layer_info.guides r) g st) shared_leaf = Some (gs @ [g])"
    and ps: "\<forall>st sl sls. node_slices st shared_leaf = Some sls \<longrightarrow>
                 node_slices (push_slice (layer_info.slices r) sl st) shared_leaf = Some (sls @ [sl])"
    by blast
  have "collectLayerInfo shared_leaf [] = [layerRecord shared_leaf]"
    by (simp add: collect_Layer shared_leaf_def)
  with c have f: "flatten [shared_leaf] = [r]"
    by (simp add: flatten_single)
  have fields: "layer_info.name r = ''bg''" "layer_info.type r = ''Layer''"
    "layer_info.width r = Some 10" "layer_info.height r = Some 20"
    "layer_info.opacity r = Some 255" "layer_info.visible r = Some True"
    "layer_info.top r = Some 0" "layer_info.left r = Some 0"
    "layer_info.blendMode r = Some ''normal''" "layer_info.clipped r = Some False"
    "layer_info.text' r = None"
    "layer_info.guides r = Some 0" "layer_info.slices r = Some 1"
    using sc g s by (simp_all add: shared_leaf_def)
  have v0: "record_guides shared_store r = Some []"
    using v n0 by simp
  have p1: "node_guides
               (push_guide (layer_info.guides r) \<lparr>position = 5, orientation = vertical\<rparr>
                  shared_store) shared_leaf
             = Some [\<lparr>position = 5, orientation = vertical\<rparr>]"
    using pg n0(1) by fastforce
  have p2: "node_slices (push_slice (layer_info.slices r) example_slice shared_store) shared_leaf
             = Some [example_slice]"
    using ps n0(2) by fastforce
  have leaf: "\<exists>r. flatten [shared_leaf] = [r]
          \<and> layer_info.name r = ''bg'' \<and> layer_info.type r = ''Layer''
          \<and> layer_info.width r = Some 10 \<and> layer_info.height r = Some 20
          \<and> layer_info.opacity r = Some 255 \<and> layer_info.visible r = Some True
          \<and> layer_info.top r = Some 0 \<and> layer_info.left r = Some 0
          \<and> layer_info.blendMode r = Some ''normal'' \<and> layer_info.clipped r = Some False
          \<and> layer_info.text' r = None
          \<and> layer_info.guides r = Some 0 \<and> layer_info.slices r = Some 1
          \<and> record_guides shared_store r = Some []
          \<and> node_guides
               (push_guide (layer_info.guides r) \<lparr>position = 5, orientation = vertical\<rparr>
                  shared_store) shared_leaf
             = Some [\<lparr>position = 5, orientation = vertical\<rparr>]
          \<and> node_slices (push_slice (layer_info.slices r) example_slice shared_store) shared_leaf
             = Some [example_slice]"
    using f fields v0 p1 p2 by blast
  from record_shares_arrays [OF tg, of "[]"] obtain r' rest' where
    c': "collectLayerInfo shared_group [] = [] @ r' # rest'"
    and sc': "layer_info.name r' = node.name shared_group"
      "layer_info.type r' = node.type shared_group"
      "node.type shared_group = ''Group'' \<longrightarrow> layer_info.open' r' = node.open' shared_group"
      "layer_info.guides r' = node.guides shared_group"
    by blast
  have "flatten [shared_group] = r' # rest'"
    using c' by (simp add: flatten_single)
  moreover have "layer_info.name r' = ''set''" "layer_info.type r' = ''Group''"
    "layer_info.open' r' = Some True" "layer_info.guides r' = Some 2"
    using sc' by (simp_all add: shared_group_def)
  ultimately have group: "\<exists>r rest. flatten [shared_group] = r # rest
          \<and> layer_info.name r = ''set'' \<and> layer_info.type r = ''Group''
          \<and> layer_info.open' r = Some True \<and> layer_info.guides r = Some 2"
    by blast
  show ?thesis
    using t tg n0 leaf group by blast
qed

text \<open>
  C3 as it is worded fails: the record is not a full copy. With the array of guides of
  a leaf at address 0, a push through the emitted record changes the guides of the
  node, and a push through the node changes the guides of the record.
\<close>

theorem record_mutation_reaches_tree:
  "node_guides shared_store shared_leaf = Some []
   \<and> node_guides
       (push_guide (layer_info.guides (hd (flatten [shared_leaf])))
          \<lparr>position = 5, orientation = horizontal\<rparr> shared_store)
       shared_leaf
     = Some [\<lparr>position = 5, orientation = horizontal\<rparr>]
   \<and> record_guides shared_store (hd (flatten [shared_leaf])) = Some []
   \<and> record_guides
       (push_guide (node.guides shared_leaf) \<lparr>position = 5, orientation = horizontal\<rparr> shared_store)
       (hd (flatten [shared_leaf]))
     = Some [\<lparr>position = 5, orientation = horizontal\<rparr>]"
proof -
  have "flatten [shared_leaf] = [layerRecord shared_leaf]"
    by (simp add: flatten_single collect_Layer shared_leaf_def)
  then show ?thesis
    by (simp add: layerRecord_def shared_leaf_def shared_store_def node_guides_def
        record_guides_def push_guide_def)
qed


section \<open>The rows of the layer list\<close>

lemma child_text_and_bool:
  "child_text (js_and (JBool b) (JStr s)) = (if b then s else [])"
  by (simp add: js_and_def)

lemma text_suffix_text:
  "child_text (text_suffix layer)
     = (case layer_info.text' layer of
          None \<Rightarrow> []
        | Some t \<Rightarrow> if t = [] then [] else label_text @ t)"
  by (simp add: text_suffix_def js_and_def split: option.split)

lemma guides_suffix_text:
  "child_text (guides_suffix layer)
     = (case layer_info.guides layer of
          None \<Rightarrow> []
        | Some g \<Rightarrow> if g = [] then [] else label_guides @ Number_toString (int (length g)))"
  by (simp add: guides_suffix_def js_and_def split: option.split)

lemma slices_suffix_text:
  "child_text (slices_suffix layer)
     = (case layer_info.slices layer of
          None \<Rightarrow> []
        | Some sl \<Rightarrow> if sl = [] then [] else label_slices @ Number_toString (int (length sl)))"
  by (simp add: slices_suffix_def js_and_def split: option.split)

text \<open>
  C7. The rendered text of a Layer record is the fixed part of the template followed by
  the three suffixes and the closing parenthesis. The text suffix is there exactly when
  the text is defined and not empty, the guide suffix exactly when the guides exist and
  the list is not empty (it then shows the length), the slice suffix likewise; otherwise
  the suffix contributes nothing at all.
\<close>

theorem conditional_suffixes:
  assumes "layer_info.type layer = ''Layer''"
  shows "layer_row layer
           = picture_icon @ '' '' @ layer_info.name layer @ leaf_details layer
             @ (case layer_info.text' layer of
                  None \<Rightarrow> []
                | Some t \<Rightarrow> if t = [] then [] else label_text @ t)
             @ (case layer_info.guides layer of
                  None \<Rightarrow> []
                | Some g \<Rightarrow>
                    if g = [] then [] else label_guides @ Number_toString (int (length g)))
             @ (case layer_info.slices layer of
                  None \<Rightarrow> []
                | Some sl \<Rightarrow>
                    if sl = [] then [] else label_slices @ Number_toString (int (length sl)))
             @ '')''"
  using assms
  by (simp add: layer_row_def span_text_def js_and_def text_suffix_text guides_suffix_text
      slices_suffix_text)

lemma Number_toString_2: "Number_toString 2 = ''2''"
  by (simp add: Number_toString_def digits.simps digit_def)

theorem conditional_suffixes_witness:
  "layer_info.type ((layerRecord (example_leaf ''bg'')) \<lparr>layer_info.guides := Some example_guides\<rparr>)
     = ''Layer''
   \<and> layer_row ((layerRecord (example_leaf ''bg'')) \<lparr>layer_info.guides := Some example_guides\<rparr>)
     = picture_icon @ '' bg''
       @ leaf_details (layerRecord (example_leaf ''bg'')) @ label_guides @ ''2)''
   \<and> layer_row ((layerRecord (example_leaf ''bg'')) \<lparr>layer_info.slices := Some []\<rparr>)
     = picture_icon @ '' bg'' @ leaf_details (layerRecord (example_leaf ''bg'')) @ '')''"
  using conditional_suffixes [of "(layerRecord (example_leaf ''bg'')) \<lparr>layer_info.guides := Some example_guides\<rparr>"]
    conditional_suffixes [of "(layerRecord (example_leaf ''bg'')) \<lparr>layer_info.slices := Some []\<rparr>"]
  by (simp add: layerRecord_def example_leaf_def example_guides_def leaf_details_def Number_toString_2)

section \<open>The handler\<close>

lemma new_ImageData_ok:
  assumes "length buf = 4 * w * h" and "0 < w" and "0 < h"
  shows "new_ImageData buf w h
           = Inr \<lparr>ImageData.data = buf, ImageData.width = w, ImageData.height = h\<rparr>"
proof -
  have "length buf = 4 * (w * h)" using assms(1) by simp
  moreover have "0 < w * h" using assms(2,3) by simp
  ultimately show ?thesis
    using assms(2) by (simp add: new_ImageData_def)
qed

lemma sized_canvas:
  "set_height (set_width createElement_canvas w) h
     = \<lparr>canvas.width = w, canvas.height = h, canvas.drawn = []\<rparr>"
  by (simp add: set_height_def set_width_def createElement_canvas_def)

lemma drawComposite_ok:
  assumes "Psd.composite psdFile = Inr buf"
    and "length buf = 4 * Psd.width psdFile * Psd.height psdFile"
    and "0 < Psd.width psdFile" and "0 < Psd.height psdFile"
  shows "drawComposite pf psdFile
         = Inr \<lparr>canvas.width = Psd.width psdFile, canvas.height = Psd.height psdFile,
                canvas.drawn =
                  (if context2d pf then
                     [\<lparr>imagedata = \<lparr>ImageData.data = buf,
                                     ImageData.width = Psd.width psdFile,
                                     ImageData.height = Psd.height psdFile\<rparr>,
                       dx = 0, dy = 0\<rparr>]
                   else [])\<rparr>"
  using assms
  by (simp add: drawComposite_def Let_def sized_canvas new_ImageData_ok putImageData_def)

lemma read_parse_draw_ok:
  assumes "arrayBuffer file = Inr bytes" and "parse pf bytes = Inr psdFile"
    and "drawComposite pf psdFile = Inr c"
  shows "read_parse_draw pf file = Inr (psdFile, c)"
  using assms by (simp add: read_parse_draw_def)

lemma try_block_early:
  "read_parse_draw pf file = Inl e \<Longrightarrow> try_block pf file s = (s, Some e)"
  by (simp add: try_block_def)

lemma try_block_ok:
  assumes "read_parse_draw pf file = Inr (psdFile, c)"
    and "forest_depth (Psd.children psdFile) \<le> call_stack pf"
  shows "try_block pf file s
         = (s\<lparr>imagePreview := toDataURL pf c,
              psdInfo := Some \<lparr>PsdFileInfo.width = Psd.width psdFile,
                               PsdFileInfo.height = Psd.height psdFile,
                               PsdFileInfo.colorMode = Number_toString (int (Psd.colorMode psdFile)),
                               PsdFileInfo.layers = flatten (Psd.children psdFile)\<rparr>\<rparr>, None)"
  using assms by (simp add: try_block_def Let_def walk_on_stack)

lemma try_block_overflow:
  assumes "read_parse_draw pf file = Inr (psdFile, c)"
    and "call_stack pf < forest_depth (Psd.children psdFile)"
  shows "try_block pf file s = (s\<lparr>imagePreview := toDataURL pf c\<rparr>, Some RangeError)"
  using assms by (simp add: try_block_def Let_def walk_on_stack)

lemma toDataURL_nonempty: "toDataURL pf c \<noteq> []"
  by (simp add: toDataURL_def)

lemma analyzePsd_early:
  assumes "read_parse_draw pf file = Inl e"
  shows "analyzePsd pf (Some file) s
         = s\<lparr>console_errors := console_errors s @ [(console_message, e)],
             alerts := alerts s @ [alert_message]\<rparr>"
  by (simp add: analyzePsd_def try_block_early [OF assms])

lemma example_run:
  "analyzePsd (platform_for example_psd) (Some good_file) initial_page
   = \<lparr>psdInfo = Some \<lparr>PsdFileInfo.width = 1, PsdFileInfo.height = 1,
                       PsdFileInfo.colorMode = ''3'',
                       PsdFileInfo.layers = [layerRecord (example_leaf ''bg'')]\<rparr>,
      imagePreview = ''data:image/png;base64,iVBORw0KGgo='',
      alerts = [], console_errors = []\<rparr>"
proof -
  have d: "drawComposite (platform_for example_psd) example_psd
           = Inr \<lparr>canvas.width = 1, canvas.height = 1,
                  canvas.drawn =
                    [\<lparr>imagedata = \<lparr>ImageData.data = [255, 0, 0, 255], ImageData.width = 1,
                                    ImageData.height = 1\<rparr>, dx = 0, dy = 0\<rparr>]\<rparr>"
    using drawComposite_ok [of example_psd "[255, 0, 0, 255]" "platform_for example_psd"]
    by (simp add: example_psd_def platform_for_def)
  have r: "read_parse_draw (platform_for example_psd) good_file
           = Inr (example_psd, \<lparr>canvas.width = 1, canvas.height = 1,
                  canvas.drawn =
                    [\<lparr>imagedata = \<lparr>ImageData.data = [255, 0, 0, 255], ImageData.width = 1,
                                    ImageData.height = 1\<rparr>, dx = 0, dy = 0\<rparr>]\<rparr>)"
    by (rule read_parse_draw_ok [OF _ _ d, of _ "[56, 66, 80, 83, 0, 1]"])
      (simp_all add: good_file_def platform_for_def)
  have k: "forest_depth (Psd.children example_psd) \<le> call_stack (platform_for example_psd)"
    by (simp add: example_psd_def example_depths platform_for_def)
  have "try_block (platform_for example_psd) good_file initial_page
        = (\<lparr>psdInfo = Some \<lparr>PsdFileInfo.width = 1, PsdFileInfo.height = 1,
                       PsdFileInfo.colorMode = ''3'',
                       PsdFileInfo.layers = [layerRecord (example_leaf ''bg'')]\<rparr>,
      imagePreview = ''data:image/png;base64,iVBORw0KGgo='',
      alerts = [], console_errors = []\<rparr>, None)"
    by (simp add: try_block_ok [OF r k])
      (simp add: platform_for_def initial_page_def toDataURL_def example_psd_def
        flatten_single example_leaf_collect Number_toString_def digits.simps digit_def)
  then show ?thesis by (simp add: analyzePsd_def)
qed

lemma bad_file_throws:
  "read_parse_draw (platform_for example_psd) bad_file = Inl (Thrown ''Invalid signature'')"
  by (simp add: read_parse_draw_def bad_file_def platform_for_def)

text \<open>
  C8, as the code has it. When the run throws during the byte read, the parse, the
  composite or the construction of the image data, that is before the preview is set
  on line 94, the handler changes neither state slot: the preview image and the summary
  info are both what they were before the run.
\<close>

theorem early_error_leaves_both_slots:
  assumes "read_parse_draw pf file = Inl e"
  shows "snd (try_block pf file s) = Some e
         \<and> imagePreview (analyzePsd pf (Some file) s) = imagePreview s
         \<and> psdInfo (analyzePsd pf (Some file) s) = psdInfo s"
  by (simp add: analyzePsd_early [OF assms] try_block_early [OF assms])

theorem early_error_leaves_both_slots_witness:
  "read_parse_draw (platform_for example_psd) bad_file = Inl (Thrown ''Invalid signature'')
   \<and> snd (try_block (platform_for example_psd) bad_file
          (analyzePsd (platform_for example_psd) (Some good_file) initial_page))
     = Some (Thrown ''Invalid signature'')
   \<and> imagePreview (analyzePsd (platform_for example_psd) (Some bad_file)
                 (analyzePsd (platform_for example_psd) (Some good_file) initial_page))
     = ''data:image/png;base64,iVBORw0KGgo=''
   \<and> psdInfo (analyzePsd (platform_for example_psd) (Some bad_file)
                 (analyzePsd (platform_for example_psd) (Some good_file) initial_page))
     = Some \<lparr>PsdFileInfo.width = 1, PsdFileInfo.height = 1,
                       PsdFileInfo.colorMode = ''3'',
                       PsdFileInfo.layers = [layerRecord (example_leaf ''bg'')]\<rparr>"
  using early_error_leaves_both_slots [OF bad_file_throws,
      of "analyzePsd (platform_for example_psd) (Some good_file) initial_page"]
  by (simp add: bad_file_throws example_run)

lemma small_stack_first_run:
  "analyzePsd small_stack_platform (Some good_file) initial_page
   = \<lparr>psdInfo = Some \<lparr>PsdFileInfo.width = 1, PsdFileInfo.height = 1,
                       PsdFileInfo.colorMode = ''3'',
                       PsdFileInfo.layers = [layerRecord (example_leaf ''bg'')]\<rparr>,
      imagePreview = ''data:image/png;base64,1x1'',
      alerts = [], console_errors = []\<rparr>"
proof -
  have d: "drawComposite small_stack_platform example_psd
           = Inr \<lparr>canvas.width = 1, canvas.height = 1,
                  canvas.drawn =
                    [\<lparr>imagedata = \<lparr>ImageData.data = [255, 0, 0, 255], ImageData.width = 1,
                                    ImageData.height = 1\<rparr>, dx = 0, dy = 0\<rparr>]\<rparr>"
    using drawComposite_ok [of example_psd "[255, 0, 0, 255]" small_stack_platform]
    by (simp add: example_psd_def small_stack_platform_def)
  have r: "read_parse_draw small_stack_platform good_file
           = Inr (example_psd, \<lparr>canvas.width = 1, canvas.height = 1,
                  canvas.drawn =
                    [\<lparr>imagedata = \<lparr>ImageData.data = [255, 0, 0, 255], ImageData.width = 1,
                                    ImageData.height = 1\<rparr>, dx = 0, dy = 0\<rparr>]\<rparr>)"
    by (rule read_parse_draw_ok [OF _ _ d, of _ "[56, 66, 80, 83, 0, 1]"])
      (simp_all add: good_file_def small_stack_platform_def)
  have k: "forest_depth (Psd.children example_psd) \<le> call_stack small_stack_platform"
    by (simp add: example_psd_def example_depths small_stack_platform_def)
  have "try_block small_stack_platform good_file initial_page
        = (\<lparr>psdInfo = Some \<lparr>PsdFileInfo.width = 1, PsdFileInfo.height = 1,
                       PsdFileInfo.colorMode = ''3'',
                       PsdFileInfo.layers = [layerRecord (example_leaf ''bg'')]\<rparr>,
      imagePreview = ''data:image/png;base64,1x1'',
      alerts = [], console_errors = []\<rparr>, None)"
    by (simp add: try_block_ok [OF r k])
      (simp add: small_stack_platform_def initial_page_def toDataURL_def example_psd_def
        flatten_single example_leaf_collect Number_toString_def digits.simps digit_def)
  then show ?thesis by (simp add: analyzePsd_def)
qed

lemma small_stack_nested_run:
  "try_block small_stack_platform nested_file s
   = (s\<lparr>imagePreview := ''data:image/png;base64,2x1''\<rparr>, Some RangeError)"
proof -
  have d: "drawComposite small_stack_platform nested_psd
           = Inr \<lparr>canvas.width = 2, canvas.height = 1,
                  canvas.drawn =
                    [\<lparr>imagedata = \<lparr>ImageData.data = [10, 20, 30, 0, 200, 100, 50, 128],
                                    ImageData.width = 2, ImageData.height = 1\<rparr>,
                      dx = 0, dy = 0\<rparr>]\<rparr>"
    using drawComposite_ok [of nested_psd "[10, 20, 30, 0, 200, 100, 50, 128]"
        small_stack_platform]
    by (simp add: nested_psd_def small_stack_platform_def)
  have r: "read_parse_draw small_stack_platform nested_file
           = Inr (nested_psd, \<lparr>canvas.width = 2, canvas.height = 1,
                  canvas.drawn =
                    [\<lparr>imagedata = \<lparr>ImageData.data = [10, 20, 30, 0, 200, 100, 50, 128],
                                    ImageData.width = 2, ImageData.height = 1\<rparr>,
                      dx = 0, dy = 0\<rparr>]\<rparr>)"
    by (rule read_parse_draw_ok [OF _ _ d, of _ "[56, 66, 80, 83, 0, 2]"])
      (simp_all add: nested_file_def small_stack_platform_def)
  have k: "call_stack small_stack_platform < forest_depth (Psd.children nested_psd)"
    by (simp add: nested_psd_def example_depths small_stack_platform_def)
  show ?thesis
    by (simp add: try_block_overflow [OF r k])
      (simp add: small_stack_platform_def toDataURL_def digits.simps digit_def)
qed

text \<open>
  C8 as it is worded fails. A document whose groups are nested deeper than the call
  stack allows makes the walk of lines 105-134 throw after the preview has been set on
  line 94 and before the info is set on line 135. Selected after a document that was
  analyzed successfully, it leaves the preview of the new document beside the info of
  the earlier one.
\<close>

theorem stack_overflow_half_update:
  "snd (try_block small_stack_platform nested_file
          (analyzePsd small_stack_platform (Some good_file) initial_page))
     = Some RangeError
   \<and> imagePreview (analyzePsd small_stack_platform (Some good_file) initial_page)
     = ''data:image/png;base64,1x1''
   \<and> imagePreview (analyzePsd small_stack_platform (Some nested_file)
        (analyzePsd small_stack_platform (Some good_file) initial_page))
     = ''data:image/png;base64,2x1''
   \<and> psdInfo (analyzePsd small_stack_platform (Some nested_file)
        (analyzePsd small_stack_platform (Some good_file) initial_page))
     = Some \<lparr>PsdFileInfo.width = 1, PsdFileInfo.height = 1,
             PsdFileInfo.colorMode = ''3'',
             PsdFileInfo.layers = [layerRecord (example_leaf ''bg'')]\<rparr>
   \<and> alerts (analyzePsd small_stack_platform (Some nested_file)
        (analyzePsd small_stack_platform (Some good_file) initial_page))
     = [alert_message]"
  by (simp add: analyzePsd_def [of _ "Some nested_file"] small_stack_nested_run
      small_stack_first_run)

text \<open>
  C2, as the code has it. When the run throws during the byte read, the parse, the
  composite or the construction of the image data, one alert with the fixed message is
  shown and one console entry is written, and the page renders what it rendered before
  the event: neither an image nor an info panel if there was none.
\<close>

theorem error_keeps_display_alerts_once:
  assumes "read_parse_draw pf file = Inl e"
  shows "snd (try_block pf file s) = Some e
         \<and> alerts (analyzePsd pf (Some file) s) = alerts s @ [alert_message]
         \<and> console_errors (analyzePsd pf (Some file) s)
             = console_errors s @ [(console_message, e)]
         \<and> render (analyzePsd pf (Some file) s) = render s
         \<and> (imagePreview s = [] \<and> psdInfo s = None \<longrightarrow>
              preview (render (analyzePsd pf (Some file) s)) = None
              \<and> panel (render (analyzePsd pf (Some file) s)) = None)"
  by (simp add: analyzePsd_early [OF assms] try_block_early [OF assms] render_def)

theorem error_keeps_display_alerts_once_witness:
  "read_parse_draw (platform_for example_psd) bad_file = Inl (Thrown ''Invalid signature'')
   \<and> snd (try_block (platform_for example_psd) bad_file initial_page)
     = Some (Thrown ''Invalid signature'')
   \<and> alerts (analyzePsd (platform_for example_psd) (Some bad_file) initial_page)
     = [alert_message]
   \<and> preview (render (analyzePsd (platform_for example_psd) (Some bad_file) initial_page)) = None
   \<and> panel (render (analyzePsd (platform_for example_psd) (Some bad_file) initial_page)) = None"
  using error_keeps_display_alerts_once [OF bad_file_throws, of initial_page]
  by (simp add: bad_file_throws initial_page_def render_def)

text \<open>
  C2 as it is worded fails: after one successful analysis, a selection that the parser
  rejects leaves the image of the earlier document and its info panel on the page.
\<close>

theorem failed_selection_keeps_previous_result:
  "snd (try_block (platform_for example_psd) bad_file
          (analyzePsd (platform_for example_psd) (Some good_file) initial_page))
     = Some (Thrown ''Invalid signature'')
   \<and> preview (render (analyzePsd (platform_for example_psd) (Some bad_file)
                 (analyzePsd (platform_for example_psd) (Some good_file) initial_page)))
     = Some \<lparr>src = ''data:image/png;base64,iVBORw0KGgo='', alt = ''PSD preview'',
             Image.width = 1, Image.height = 1\<rparr>
   \<and> panel (render (analyzePsd (platform_for example_psd) (Some bad_file)
                 (analyzePsd (platform_for example_psd) (Some good_file) initial_page)))
     \<noteq> None"
  by (simp add: analyzePsd_early [OF bad_file_throws] try_block_early [OF bad_file_throws]
      example_run render_def)

text \<open>
  C9, as the code has it. For a file that is read and parsed, whose composite is the
  RGBA buffer of the document (four bytes a pixel, the document being at least one
  pixel wide and high) and whose layer tree the walk gets through: the run completes
  without an alert; the canvas has exactly the width and the height of the document;
  with a 2d context the one drawing call on it is \<open>putImageData\<close> at the origin (0, 0)
  of image data that holds the very buffer and has the size of the document, so that
  the image covers the surface exactly, and without a context nothing is drawn; the
  preview is the data URL of that canvas, and the image element is rendered with the
  width and the height of the document.
\<close>

theorem composite_image_dimensions:
  assumes "arrayBuffer file = Inr bytes"
    and "parse pf bytes = Inr psdFile"
    and "Psd.composite psdFile = Inr buf"
    and "length buf = 4 * Psd.width psdFile * Psd.height psdFile"
    and "0 < Psd.width psdFile" and "0 < Psd.height psdFile"
    and "forest_depth (Psd.children psdFile) \<le> call_stack pf"
  shows "\<exists>c. drawComposite pf psdFile = Inr c
           \<and> canvas.width c = Psd.width psdFile
           \<and> canvas.height c = Psd.height psdFile
           \<and> canvas.drawn c =
               (if context2d pf then
                  [\<lparr>imagedata = \<lparr>ImageData.data = buf,
                                  ImageData.width = Psd.width psdFile,
                                  ImageData.height = Psd.height psdFile\<rparr>,
                    dx = 0, dy = 0\<rparr>]
                else [])
           \<and> snd (try_block pf file s) = None
           \<and> imagePreview (analyzePsd pf (Some file) s) = toDataURL pf c
           \<and> preview (render (analyzePsd pf (Some file) s))
             = Some \<lparr>src = toDataURL pf c, alt = ''PSD preview'',
                     Image.width = Psd.width psdFile, Image.height = Psd.height psdFile\<rparr>
           \<and> alerts (analyzePsd pf (Some file) s) = alerts s"
proof -
  let ?c = "\<lparr>canvas.width = Psd.width psdFile, canvas.height = Psd.height psdFile,
              canvas.drawn =
                (if context2d pf then
                   [\<lparr>imagedata = \<lparr>ImageData.data = buf,
                                   ImageData.width = Psd.width psdFile,
                                   ImageData.height = Psd.height psdFile\<rparr>,
                     dx = 0, dy = 0\<rparr>]
                 else [])\<rparr>"
  have d: "drawComposite pf psdFile = Inr ?c"
    by (rule drawComposite_ok [OF assms(3-6)])
  note r = read_parse_draw_ok [OF assms(1,2) d]
  note t = try_block_ok [OF r assms(7)]
  have "analyzePsd pf (Some file) s = fst (try_block pf file s)"
    by (simp add: analyzePsd_def t)
  then show ?thesis
    using assms(5,6) d
    by (simp add: t render_def toDataURL_nonempty)
qed

lemma blank_run:
  assumes "0 < w" and "0 < h"
  shows "arrayBuffer good_file = Inr [56, 66, 80, 83, 0, 1]"
    and "parse (platform_for (blank_psd w h)) [56, 66, 80, 83, 0, 1] = Inr (blank_psd w h)"
    and "Psd.composite (blank_psd w h) = Inr (replicate (4 * w * h) 0)"
    and "length (replicate (4 * w * h) (0::byte))
           = 4 * Psd.width (blank_psd w h) * Psd.height (blank_psd w h)"
    and "0 < Psd.width (blank_psd w h)" and "0 < Psd.height (blank_psd w h)"
    and "forest_depth (Psd.children (blank_psd w h)) \<le> call_stack (platform_for (blank_psd w h))"
  using assms by (simp_all add: good_file_def platform_for_def blank_psd_def example_depths)

lemma nested_run:
  shows "arrayBuffer good_file = Inr [56, 66, 80, 83, 0, 1]"
    and "parse (platform_for nested_psd) [56, 66, 80, 83, 0, 1] = Inr nested_psd"
    and "Psd.composite nested_psd = Inr [10, 20, 30, 0, 200, 100, 50, 128]"
    and "length [10, 20, 30, 0, 200, 100, 50, 128 :: byte]
           = 4 * Psd.width nested_psd * Psd.height nested_psd"
    and "0 < Psd.width nested_psd" and "0 < Psd.height nested_psd"
    and "forest_depth (Psd.children nested_psd) \<le> call_stack (platform_for nested_psd)"
  by (simp_all add: good_file_def platform_for_def nested_psd_def example_depths)

theorem composite_image_dimensions_witness:
  "drawComposite (platform_for nested_psd) nested_psd
     = Inr \<lparr>canvas.width = 2, canvas.height = 1,
            canvas.drawn =
              [\<lparr>imagedata = \<lparr>ImageData.data = [10, 20, 30, 0, 200, 100, 50, 128],
                              ImageData.width = 2, ImageData.height = 1\<rparr>,
                dx = 0, dy = 0\<rparr>]\<rparr>
   \<and> preview (render (analyzePsd (platform_for nested_psd) (Some good_file) initial_page))
     = Some \<lparr>src = ''data:image/png;base64,iVBORw0KGgo='', alt = ''PSD preview'',
             Image.width = 2, Image.height = 1\<rparr>
   \<and> alerts (analyzePsd (platform_for nested_psd) (Some good_file) initial_page) = []
   \<and> map_option Image.width
     (preview (render (analyzePsd (platform_for (blank_psd 1 1)) (Some good_file) initial_page)))
     = Some 1
   \<and> map_option Image.height
     (preview (render (analyzePsd (platform_for (blank_psd 1 1)) (Some good_file) initial_page)))
     = Some 1
   \<and> map_option Image.width
     (preview (render (analyzePsd (platform_for (blank_psd 100 50)) (Some good_file) initial_page)))
     = Some 100
   \<and> map_option Image.height
     (preview (render (analyzePsd (platform_for (blank_psd 100 50)) (Some good_file) initial_page)))
     = Some 50
   \<and> map_option Image.width
     (preview (render (analyzePsd (platform_for (blank_psd 4096 4096)) (Some good_file) initial_page)))
     = Some 4096
   \<and> map_option Image.height
     (preview (render (analyzePsd (platform_for (blank_psd 4096 4096)) (Some good_file) initial_page)))
     = Some 4096"
proof -
  have p: "(0::nat) < 1" "(0::nat) < 100" "(0::nat) < 50" "(0::nat) < 4096"
    by simp_all
  have w: "Psd.width (blank_psd w h) = w" "Psd.height (blank_psd w h) = h" for w h
    by (simp_all add: blank_psd_def)
  have n: "Psd.width nested_psd = 2" "Psd.height nested_psd = 1"
    "context2d (platform_for nested_psd)"
    by (simp_all add: nested_psd_def platform_for_def)
  have u: "toDataURL (platform_for nested_psd) c = ''data:image/png;base64,iVBORw0KGgo=''"
    if "canvas.width c = 2" "canvas.height c = 1" for c
    using that by (simp add: toDataURL_def platform_for_def)
  have first: "drawComposite (platform_for nested_psd) nested_psd
     = Inr \<lparr>canvas.width = 2, canvas.height = 1,
            canvas.drawn =
              [\<lparr>imagedata = \<lparr>ImageData.data = [10, 20, 30, 0, 200, 100, 50, 128],
                              ImageData.width = 2, ImageData.height = 1\<rparr>,
                dx = 0, dy = 0\<rparr>]\<rparr>
   \<and> preview (render (analyzePsd (platform_for nested_psd) (Some good_file) initial_page))
     = Some \<lparr>src = ''data:image/png;base64,iVBORw0KGgo='', alt = ''PSD preview'',
             Image.width = 2, Image.height = 1\<rparr>
   \<and> alerts (analyzePsd (platform_for nested_psd) (Some good_file) initial_page) = []"
    using composite_image_dimensions [OF nested_run, of initial_page]
    by (auto simp: n u initial_page_def)
  show ?thesis
    using first
      composite_image_dimensions [OF blank_run [OF p(1) p(1)], of initial_page]
      composite_image_dimensions [OF blank_run [OF p(2) p(3)], of initial_page]
      composite_image_dimensions [OF blank_run [OF p(4) p(4)], of initial_page]
    by (auto simp: w)
qed

lemma no_context_draw:
  "drawComposite ((platform_for example_psd)\<lparr>context2d := False\<rparr>) example_psd
   = Inr \<lparr>canvas.width = 1, canvas.height = 1, canvas.drawn = []\<rparr>"
  using drawComposite_ok [of example_psd "[255, 0, 0, 255]"
      "(platform_for example_psd)\<lparr>context2d := False\<rparr>"]
  by (simp add: example_psd_def)

text \<open>
  C9 as it is worded fails: when \<open>getContext('2d')\<close> yields no context, line 93 is
  skipped. The document is parsed and composited, the run completes without an alert and
  the image element is rendered with the size of the document, but nothing has been
  placed on the surface.
\<close>

theorem no_context_blank_surface:
  "Psd.composite example_psd = Inr [255, 0, 0, 255]
   \<and> drawComposite ((platform_for example_psd)\<lparr>context2d := False\<rparr>) example_psd
     = Inr \<lparr>canvas.width = 1, canvas.height = 1, canvas.drawn = []\<rparr>
   \<and> snd (try_block ((platform_for example_psd)\<lparr>context2d := False\<rparr>) good_file initial_page)
     = None
   \<and> alerts (analyzePsd ((platform_for example_psd)\<lparr>context2d := False\<rparr>) (Some good_file)
        initial_page) = []
   \<and> preview (render (analyzePsd ((platform_for example_psd)\<lparr>context2d := False\<rparr>)
        (Some good_file) initial_page))
     = Some \<lparr>src = ''data:image/png;base64,iVBORw0KGgo='', alt = ''PSD preview'',
             Image.width = 1, Image.height = 1\<rparr>"
proof -
  let ?pf = "(platform_for example_psd)\<lparr>context2d := False\<rparr>"
  have r: "read_parse_draw ?pf good_file
           = Inr (example_psd, \<lparr>canvas.width = 1, canvas.height = 1, canvas.drawn = []\<rparr>)"
    by (rule read_parse_draw_ok [OF _ _ no_context_draw, of _ "[56, 66, 80, 83, 0, 1]"])
      (simp_all add: good_file_def platform_for_def)
  have k: "forest_depth (Psd.children example_psd) \<le> call_stack ?pf"
    by (simp add: example_psd_def example_depths platform_for_def)
  show ?thesis
    by (simp add: no_context_draw analyzePsd_def try_block_ok [OF r k] render_def)
      (simp add: example_psd_def initial_page_def toDataURL_def platform_for_def)
qed

end
